theory Spec2Isabelle
  imports Complex_Main "HOL-Library.Word"
begin

section \<open>Data model of SceneManager.cpp\<close>

text \<open>
  Float literals of the source are denoted by their decimal value (a rational).  The
  modelled code only stores and forwards them; the arithmetic of glm (scale, rotate,
  translate, radians, matrix product) is kept symbolic in \<open>mat4\<close>.
\<close>

type_synonym float = rat

type_synonym GLuint = "32 word"

datatype vec2 = Vec2 float float

datatype vec3 = Vec3 float float float

datatype vec4 = Vec4 float float float float

datatype angle = GlmRadians float

datatype mat4 =
    GlmScale vec3
  | GlmRotate angle vec3
  | GlmTranslate vec3
  | MatMul mat4 mat4

text \<open>
  The structs \<open>TEXTURE_INFO\<close> and \<open>OBJECT_MATERIAL\<close> are declared in SceneManager.h, which
  is not part of the sources; their fields are the ones SceneManager.cpp reads and writes.
  \<open>ID\<close> is a \<open>GLuint\<close>: its address is handed to \<open>glGenTextures\<close>.  Both structs have a
  field \<open>tag\<close>; the texture's is \<open>TEXTURE_INFO.tag\<close> here and the material's is
  \<open>OBJECT_MATERIAL.tag\<close>.
\<close>

record TEXTURE_INFO =
  ID :: GLuint
  tag :: string

record OBJECT_MATERIAL =
  ambientColor :: vec3
  ambientStrength :: float
  diffuseColor :: vec3
  specularColor :: vec3
  shininess :: float
  tag :: string

record image =
  width :: int
  height :: int
  colorChannels :: int

datatype ShaderManager_ptr = NULL | ShaderManager

text \<open>
  Every call that leaves SceneManager (stb_image, OpenGL, the shader manager, the mesh
  object) is an event of the trace, in call order, with the arguments the claims look at.
  \<open>GlActiveTexture i\<close> is \<open>glActiveTexture(GL_TEXTURE0 + i)\<close>.  \<open>GlDeleteTextures\<close> is the
  OpenGL call that frees a texture object; no function of SceneManager.cpp makes it.
  Output to \<open>std::cout\<close> is not recorded.
\<close>

datatype event =
    StbiSetFlipVerticallyOnLoad bool
  | StbiLoad string
  | StbiImageFree
  | GlGenTextures int
  | GlDeleteTextures int GLuint
  | GlBindTexture string GLuint
  | GlTexParameteri string string string
  | GlTexImage2D string int string int int int string string
  | GlGenerateMipmap string
  | GlActiveTexture int
  | SetMat4Value string mat4
  | SetIntValue string int
  | SetBoolValue string bool
  | SetFloatValue string float
  | SetVec2Value string vec2
  | SetVec3Value string vec3
  | SetVec4Value string vec4
  | SetSampler2DValue string int
  | LoadPlaneMesh
  | LoadTorusMesh
  | LoadCylinderMesh
  | LoadSphereMesh
  | DrawPlaneMesh
  | DrawCylinderMesh
  | DrawSphereMesh
  | DrawTorusMesh

text \<open>
  The state: the members of SceneManager, then the environment the code talks to.
  \<open>m_textureIDs\<close> is the fixed array of the class (a list whose length is the array's
  size), \<open>m_loadedTextures\<close> the C++ \<open>int\<close> counter.  \<open>files\<close> maps a file name to the
  image stb_image would decode (absent: the load fails); \<open>gl_names\<close> are the texture
  names the driver hands out next; \<open>uninit_material\<close> is the indeterminate content of the
  uninitialised local of \<open>SetShaderMaterial\<close>.
\<close>

record state =
  m_pShaderManager :: ShaderManager_ptr
  m_textureIDs :: "TEXTURE_INFO list"
  m_loadedTextures :: int
  m_objectMaterials :: "OBJECT_MATERIAL list"
  files :: "(string \<times> image) list"
  gl_names :: "GLuint list"
  uninit_material :: OBJECT_MATERIAL
  trace :: "event list"

text \<open>
  Undefined behaviour of the C++ is a value: a call through the null shader manager, or an
  access to \<open>m_textureIDs\<close> outside the array.
\<close>

datatype fault = NullDereference | OutOfBounds int

definition g_ModelName :: string where "g_ModelName = ''model''"

definition g_ColorValueName :: string where "g_ColorValueName = ''objectColor''"

definition g_TextureValueName :: string where "g_TextureValueName = ''objectTexture''"

definition g_UseTextureName :: string where "g_UseTextureName = ''bUseTexture''"

definition g_UseLightingName :: string where "g_UseLightingName = ''bUseLighting''"

definition emit :: "event \<Rightarrow> state \<Rightarrow> state" where
  "emit e s = s\<lparr>trace := trace s @ [e]\<rparr>"

text \<open>A call \<open>m_pShaderManager->f(...)\<close>.\<close>

definition shader_call :: "event \<Rightarrow> state \<Rightarrow> fault + state" where
  "shader_call e s =
     (if m_pShaderManager s = NULL then Inl NullDereference else Inr (emit e s))"

text \<open>Statements in sequence; a fault ends the run.\<close>

fun run_all :: "(state \<Rightarrow> fault + state) list \<Rightarrow> state \<Rightarrow> fault + state" where
  "run_all [] s = Inr s"
| "run_all (f # fs) s = (case f s of Inl e \<Rightarrow> Inl e | Inr s' \<Rightarrow> run_all fs s')"

text \<open>\<open>m_textureIDs[i]\<close>, read and written.\<close>

definition tex_read :: "state \<Rightarrow> int \<Rightarrow> fault + TEXTURE_INFO" where
  "tex_read s i =
     (if 0 \<le> i \<and> i < int (length (m_textureIDs s)) then Inr (m_textureIDs s ! nat i)
      else Inl (OutOfBounds i))"

definition tex_write :: "int \<Rightarrow> TEXTURE_INFO \<Rightarrow> state \<Rightarrow> fault + state" where
  "tex_write i t s =
     (if 0 \<le> i \<and> i < int (length (m_textureIDs s))
      then Inr (s\<lparr>m_textureIDs := (m_textureIDs s)[nat i := t]\<rparr>)
      else Inl (OutOfBounds i))"

text \<open>
  \<open>stbi_load\<close>: the decoded image, or nothing when the file cannot be read.
  \<open>glGenTextures(1, &x)\<close>: the next name of the driver is stored in \<open>x\<close>; a driver with no
  name to give leaves \<open>x\<close> as it was.
\<close>

definition stbi_load :: "string \<Rightarrow> state \<Rightarrow> image option \<times> state" where
  "stbi_load filename s = (map_of (files s) filename, emit (StbiLoad filename) s)"

definition glGenTextures :: "GLuint \<Rightarrow> state \<Rightarrow> GLuint \<times> state" where
  "glGenTextures x s =
     (case gl_names s of
        [] \<Rightarrow> (x, emit (GlGenTextures 1) s)
      | n # ns \<Rightarrow> (n, emit (GlGenTextures 1) (s\<lparr>gl_names := ns\<rparr>)))"

section \<open>Texture registry\<close>

definition CreateGLTexture :: "string \<Rightarrow> string \<Rightarrow> state \<Rightarrow> fault + (bool \<times> state)" where
  "CreateGLTexture filename tg s0 =
     (let s1 = emit (StbiSetFlipVerticallyOnLoad True) s0;
          (img, s2) = stbi_load filename s1
      in case img of
           None \<Rightarrow> Inr (False, s2)
         | Some im \<Rightarrow>
            (let (textureID, s3) = glGenTextures 0 s2;
                 s4 = emit (GlBindTexture ''GL_TEXTURE_2D'' textureID) s3;
                 s5 = emit (GlTexParameteri ''GL_TEXTURE_2D'' ''GL_TEXTURE_WRAP_S'' ''GL_REPEAT'') s4;
                 s6 = emit (GlTexParameteri ''GL_TEXTURE_2D'' ''GL_TEXTURE_WRAP_T'' ''GL_REPEAT'') s5;
                 s7 = emit (GlTexParameteri ''GL_TEXTURE_2D'' ''GL_TEXTURE_MIN_FILTER'' ''GL_LINEAR'') s6;
                 s8 = emit (GlTexParameteri ''GL_TEXTURE_2D'' ''GL_TEXTURE_MAG_FILTER'' ''GL_LINEAR'') s7
             in case (if colorChannels im = 3
                      then Some (emit (GlTexImage2D ''GL_TEXTURE_2D'' 0 ''GL_RGB8'' (width im) (height im) 0
                                         ''GL_RGB'' ''GL_UNSIGNED_BYTE'') s8)
                      else if colorChannels im = 4
                      then Some (emit (GlTexImage2D ''GL_TEXTURE_2D'' 0 ''GL_RGBA8'' (width im) (height im) 0
                                         ''GL_RGBA'' ''GL_UNSIGNED_BYTE'') s8)
                      else None) of
                  None \<Rightarrow> Inr (False, s8)
                | Some s9 \<Rightarrow>
                   (let s10 = emit (GlGenerateMipmap ''GL_TEXTURE_2D'') s9;
                        s11 = emit StbiImageFree s10;
                        s12 = emit (GlBindTexture ''GL_TEXTURE_2D'' 0) s11
                    in case tex_write (m_loadedTextures s12) \<lparr>ID = textureID, tag = tg\<rparr> s12 of
                         Inl e \<Rightarrow> Inl e
                       | Inr s13 \<Rightarrow> Inr (True, s13\<lparr>m_loadedTextures := m_loadedTextures s13 + 1\<rparr>))))"

text \<open>The \<open>for\<close> loop of \<open>BindGLTextures\<close>, from index \<open>i\<close> on.\<close>

function BindGLTextures_loop :: "int \<Rightarrow> state \<Rightarrow> fault + state" where
  "BindGLTextures_loop i s =
     (if i < m_loadedTextures s then
        (case tex_read s i of
           Inl e \<Rightarrow> Inl e
         | Inr t \<Rightarrow>
             BindGLTextures_loop (i + 1)
               (emit (GlBindTexture ''GL_TEXTURE_2D'' (ID t)) (emit (GlActiveTexture i) s)))
      else Inr s)"
  by pat_completeness auto

termination
  by (relation "measure (\<lambda>(i, s). nat (m_loadedTextures s - i))") (auto simp: emit_def)

declare BindGLTextures_loop.simps [simp del]

definition BindGLTextures :: "state \<Rightarrow> fault + state" where
  "BindGLTextures s = BindGLTextures_loop 0 s"

text \<open>
  The \<open>for\<close> loop of \<open>DestroyGLTextures\<close>, from index \<open>i\<close> on:
  \<open>glGenTextures(1, &m_textureIDs[i].ID)\<close>.
\<close>

function DestroyGLTextures_loop :: "int \<Rightarrow> state \<Rightarrow> fault + state" where
  "DestroyGLTextures_loop i s =
     (if i < m_loadedTextures s then
        (case tex_read s i of
           Inl e \<Rightarrow> Inl e
         | Inr t \<Rightarrow>
            (let (x, s1) = glGenTextures (ID t) s
             in case tex_write i (t\<lparr>ID := x\<rparr>) s1 of
                  Inl e \<Rightarrow> Inl e
                | Inr s2 \<Rightarrow> DestroyGLTextures_loop (i + 1) s2))
      else Inr s)"
  by pat_completeness auto

termination
proof (relation "measure (\<lambda>(i, s). nat (m_loadedTextures s - i))", goal_cases)
  case 1
  show ?case by simp
next
  case (2 i s t p x s1 s2)
  from 2 have "m_loadedTextures s1 = m_loadedTextures s"
    by (auto simp: glGenTextures_def emit_def split: list.splits)
  moreover from 2 have "m_loadedTextures s2 = m_loadedTextures s1"
    by (auto simp: tex_write_def split: if_splits)
  ultimately show ?case using 2 by simp
qed

declare DestroyGLTextures_loop.simps [simp del]

definition DestroyGLTextures :: "state \<Rightarrow> fault + state" where
  "DestroyGLTextures s = DestroyGLTextures_loop 0 s"

text \<open>
  The \<open>while\<close> loops of \<open>FindTextureID\<close> and \<open>FindTextureSlot\<close>, with their three
  local variables.  The \<open>GLuint\<close> ID is converted to the \<open>int\<close> result.
\<close>

function FindTextureID_while :: "state \<Rightarrow> string \<Rightarrow> int \<Rightarrow> int \<Rightarrow> bool \<Rightarrow> fault + int" where
  "FindTextureID_while s tg textureID index bFound =
     (if index < m_loadedTextures s \<and> bFound = False then
        (case tex_read s index of
           Inl e \<Rightarrow> Inl e
         | Inr t \<Rightarrow>
             if TEXTURE_INFO.tag t = tg
             then FindTextureID_while s tg (sint (ID t)) index True
             else FindTextureID_while s tg textureID (index + 1) bFound)
      else Inr textureID)"
  by pat_completeness auto

termination
  by (relation "measure (\<lambda>(s, tg, x, index, bFound).
        nat (2 * (m_loadedTextures s - index)) + (if bFound then 0 else 1))") auto

declare FindTextureID_while.simps [simp del]

definition FindTextureID :: "string \<Rightarrow> state \<Rightarrow> fault + int" where
  "FindTextureID tg s = FindTextureID_while s tg (- 1) 0 False"

function FindTextureSlot_while :: "state \<Rightarrow> string \<Rightarrow> int \<Rightarrow> int \<Rightarrow> bool \<Rightarrow> fault + int" where
  "FindTextureSlot_while s tg textureSlot index bFound =
     (if index < m_loadedTextures s \<and> bFound = False then
        (case tex_read s index of
           Inl e \<Rightarrow> Inl e
         | Inr t \<Rightarrow>
             if TEXTURE_INFO.tag t = tg
             then FindTextureSlot_while s tg index index True
             else FindTextureSlot_while s tg textureSlot (index + 1) bFound)
      else Inr textureSlot)"
  by pat_completeness auto

termination
  by (relation "measure (\<lambda>(s, tg, x, index, bFound).
        nat (2 * (m_loadedTextures s - index)) + (if bFound then 0 else 1))") auto

declare FindTextureSlot_while.simps [simp del]

definition FindTextureSlot :: "string \<Rightarrow> state \<Rightarrow> fault + int" where
  "FindTextureSlot tg s = FindTextureSlot_while s tg (- 1) 0 False"

section \<open>Materials\<close>

text \<open>
  The \<open>while\<close> loop of \<open>FindMaterial\<close> over the vector, with its locals and the
  out-parameter \<open>material\<close>.  Five fields are copied; the out-parameter's tag is not.
\<close>

function FindMaterial_while ::
  "OBJECT_MATERIAL list \<Rightarrow> string \<Rightarrow> int \<Rightarrow> bool \<Rightarrow> OBJECT_MATERIAL \<Rightarrow> OBJECT_MATERIAL" where
  "FindMaterial_while ms tg index bFound material =
     (if index < int (length ms) \<and> bFound = False then
        (if OBJECT_MATERIAL.tag (ms ! nat index) = tg
         then FindMaterial_while ms tg index True
                (material\<lparr>ambientColor := ambientColor (ms ! nat index),
                           ambientStrength := ambientStrength (ms ! nat index),
                           diffuseColor := diffuseColor (ms ! nat index),
                           specularColor := specularColor (ms ! nat index),
                           shininess := shininess (ms ! nat index)\<rparr>)
         else FindMaterial_while ms tg (index + 1) bFound material)
      else material)"
  by pat_completeness auto

termination
  by (relation "measure (\<lambda>(ms, tg, index, bFound, material).
        nat (2 * (int (length ms) - index)) + (if bFound then 0 else 1))") auto

declare FindMaterial_while.simps [simp del]

definition FindMaterial :: "string \<Rightarrow> OBJECT_MATERIAL \<Rightarrow> state \<Rightarrow> bool \<times> OBJECT_MATERIAL" where
  "FindMaterial tg material s =
     (if length (m_objectMaterials s) = 0 then (False, material)
      else (True, FindMaterial_while (m_objectMaterials s) tg 0 False material))"

section \<open>Shader state\<close>

definition SetTransformations ::
  "vec3 \<Rightarrow> float \<Rightarrow> float \<Rightarrow> float \<Rightarrow> vec3 \<Rightarrow> state \<Rightarrow> fault + state" where
  "SetTransformations scaleXYZ XrotationDegrees YrotationDegrees ZrotationDegrees positionXYZ s =
     (let scale = GlmScale scaleXYZ;
          rotationX = GlmRotate (GlmRadians XrotationDegrees) (Vec3 1 0 0);
          rotationY = GlmRotate (GlmRadians YrotationDegrees) (Vec3 0 1 0);
          rotationZ = GlmRotate (GlmRadians ZrotationDegrees) (Vec3 0 0 1);
          translation = GlmTranslate positionXYZ;
          modelView = MatMul (MatMul (MatMul (MatMul translation rotationZ) rotationY) rotationX) scale
      in if NULL \<noteq> m_pShaderManager s
         then shader_call (SetMat4Value g_ModelName modelView) s
         else Inr s)"

definition SetShaderColor :: "float \<Rightarrow> float \<Rightarrow> float \<Rightarrow> float \<Rightarrow> state \<Rightarrow> fault + state" where
  "SetShaderColor redColorValue greenColorValue blueColorValue alphaValue s =
     (let currentColor = Vec4 redColorValue greenColorValue blueColorValue alphaValue
      in if NULL \<noteq> m_pShaderManager s
         then run_all [shader_call (SetIntValue g_UseTextureName 0),
                       shader_call (SetVec4Value g_ColorValueName currentColor)] s
         else Inr s)"

definition SetShaderTexture :: "string \<Rightarrow> state \<Rightarrow> fault + state" where
  "SetShaderTexture textureTag s =
     (if NULL \<noteq> m_pShaderManager s then
        (case shader_call (SetIntValue g_UseTextureName 1) s of
           Inl e \<Rightarrow> Inl e
         | Inr s1 \<Rightarrow>
            (case FindTextureSlot textureTag s1 of
               Inl e \<Rightarrow> Inl e
             | Inr textureID \<Rightarrow> shader_call (SetSampler2DValue g_TextureValueName textureID) s1))
      else Inr s)"

definition SetTextureUVScale :: "float \<Rightarrow> float \<Rightarrow> state \<Rightarrow> fault + state" where
  "SetTextureUVScale u v s =
     (if NULL \<noteq> m_pShaderManager s
      then shader_call (SetVec2Value ''UVscale'' (Vec2 u v)) s
      else Inr s)"

text \<open>
  The local \<open>material\<close> of \<open>SetShaderMaterial\<close> is not initialised: its numeric fields are
  indeterminate and its tag is the empty string.  The calls on the shader manager are not
  guarded.
\<close>

definition SetShaderMaterial :: "string \<Rightarrow> state \<Rightarrow> fault + state" where
  "SetShaderMaterial materialTag s =
     (if length (m_objectMaterials s) > 0 then
        (let (bReturn, material) =
               FindMaterial materialTag ((uninit_material s)\<lparr>OBJECT_MATERIAL.tag := []\<rparr>) s
         in if bReturn = True then
              run_all
                [shader_call (SetVec3Value ''material.ambientColor'' (ambientColor material)),
                 shader_call (SetFloatValue ''material.ambientStrength'' (ambientStrength material)),
                 shader_call (SetVec3Value ''material.diffuseColor'' (diffuseColor material)),
                 shader_call (SetVec3Value ''material.specularColor'' (specularColor material)),
                 shader_call (SetFloatValue ''material.shininess'' (shininess material))] s
            else Inr s)
      else Inr s)"

section \<open>Scene set-up and rendering\<close>

definition push_back :: "OBJECT_MATERIAL \<Rightarrow> state \<Rightarrow> state" where
  "push_back m s = s\<lparr>m_objectMaterials := m_objectMaterials s @ [m]\<rparr>"

definition DefineObjectMaterials :: "state \<Rightarrow> state" where
  "DefineObjectMaterials s0 =
     (let
          blackmetalMaterial = \<lparr>ambientColor = Vec3 0.5 0.5 0.5, ambientStrength = 0.5,
            diffuseColor = Vec3 0.2 0.2 0.2, specularColor = Vec3 0.5 0.5 0.5,
            shininess = 128, tag = ''blackmetal''\<rparr>;
          s1 = push_back blackmetalMaterial s0;
          carbonfiberMaterial = \<lparr>ambientColor = Vec3 0.5 0.5 0.5, ambientStrength = 0.4,
            diffuseColor = Vec3 0.4 0.4 0.4, specularColor = Vec3 0.8 0.8 0.8,
            shininess = 0.5, tag = ''carbonfiber''\<rparr>;
          s2 = push_back carbonfiberMaterial s1;
          metalMaterial = \<lparr>ambientColor = Vec3 0.8 0.8 0.8, ambientStrength = 0.8,
            diffuseColor = Vec3 0.8 0.8 0.8, specularColor = Vec3 1 1 1,
            shininess = 100, tag = ''metal''\<rparr>;
          s3 = push_back metalMaterial s2;
          greyplasticMaterial = \<lparr>ambientColor = Vec3 1 1 1, ambientStrength = 0.8,
            diffuseColor = Vec3 1 1 1, specularColor = Vec3 1 1 1,
            shininess = 65, tag = ''greyplastic''\<rparr>;
          s4 = push_back greyplasticMaterial s3;
          clayMaterial = \<lparr>ambientColor = Vec3 0.2 0.2 0.3, ambientStrength = 0.3,
            diffuseColor = Vec3 0.4 0.4 0.5, specularColor = Vec3 0.2 0.2 0.4,
            shininess = 0.5, tag = ''clay''\<rparr>;
          s5 = push_back clayMaterial s4
      in s5)"

definition SetupSceneLights :: "state \<Rightarrow> fault + state" where
  "SetupSceneLights s =
     run_all
       [
        shader_call (SetVec3Value ''lightSources[0].position'' (Vec3 5 5 5)),
        shader_call (SetVec3Value ''lightSources[0].ambientColor'' (Vec3 0.01 0.01 0.01)),
        shader_call (SetVec3Value ''lightSources[0].diffuseColor'' (Vec3 1 0.4 0.4)),
        shader_call (SetVec3Value ''lightSources[0].specularColor'' (Vec3 0 0 0)),
        shader_call (SetFloatValue ''lightSources[0].focalStrength'' 32),
        shader_call (SetFloatValue ''lightSources[0].specularIntensity'' 0.01),
        shader_call (SetVec3Value ''lightSources[1].position'' (Vec3 (- 3) 5 5)),
        shader_call (SetVec3Value ''lightSources[1].ambientColor'' (Vec3 1 0.01 0.01)),
        shader_call (SetVec3Value ''lightSources[1].diffuseColor'' (Vec3 0.4 0.4 0.4)),
        shader_call (SetVec3Value ''lightSources[1].specularColor'' (Vec3 0 0 0)),
        shader_call (SetFloatValue ''lightSources[1].focalStrength'' 32),
        shader_call (SetFloatValue ''lightSources[1].specularIntensity'' 0.01),
        shader_call (SetVec3Value ''lightSources[2].position'' (Vec3 1.6 5 1)),
        shader_call (SetVec3Value ''lightSources[2].ambientColor'' (Vec3 0.01 0.01 0.01)),
        shader_call (SetVec3Value ''lightSources[2].diffuseColor'' (Vec3 0.3 0.3 0.3)),
        shader_call (SetVec3Value ''lightSources[2].specularColor'' (Vec3 0.3 0.3 0.3)),
        shader_call (SetFloatValue ''lightSources[2].focalStrength'' 12),
        shader_call (SetFloatValue ''lightSources[2].specularIntensity'' 0.1),
        shader_call (SetVec3Value ''lightSources[3].position'' (Vec3 4 5 (- 5))),
        shader_call (SetVec3Value ''lightSources[3].ambientColor'' (Vec3 0.01 0.01 0.01)),
        shader_call (SetVec3Value ''lightSources[3].diffuseColor'' (Vec3 0.3 0.3 0.3)),
        shader_call (SetVec3Value ''lightSources[3].specularColor'' (Vec3 0.3 0.3 0.3)),
        shader_call (SetFloatValue ''lightSources[3].focalStrength'' 12),
        shader_call (SetFloatValue ''lightSources[3].specularIntensity'' 0.1),
        shader_call (SetBoolValue ''bUseLighting'' True)
       ] s"

text \<open>\<open>bReturn\<close> is assigned and never read: the result of each load is dropped.\<close>

definition drop_result :: "fault + (bool \<times> state) \<Rightarrow> fault + state" where
  "drop_result r = (case r of Inl e \<Rightarrow> Inl e | Inr (bReturn, s) \<Rightarrow> Inr s)"

definition CreateGLTexture_call :: "string \<Rightarrow> string \<Rightarrow> state \<Rightarrow> fault + state" where
  "CreateGLTexture_call filename tg s = drop_result (CreateGLTexture filename tg s)"

definition LoadSceneTextures :: "state \<Rightarrow> fault + state" where
  "LoadSceneTextures s =
     run_all
       [CreateGLTexture_call ''textures/blackmetal.jpg'' ''blackmetal'',
        CreateGLTexture_call ''textures/carbonfiber.png'' ''carbonfiber'',
        CreateGLTexture_call ''textures/metal.jpg'' ''metal'',
        CreateGLTexture_call ''textures/greyplastic.jpg'' ''greyplastic'',
        BindGLTextures] s"

text \<open>A call on \<open>m_basicMeshes\<close>, which the constructor allocates.\<close>

definition mesh_call :: "event \<Rightarrow> state \<Rightarrow> fault + state" where
  "mesh_call e s = Inr (emit e s)"

definition DefineObjectMaterials_call :: "state \<Rightarrow> fault + state" where
  "DefineObjectMaterials_call s = Inr (DefineObjectMaterials s)"

definition PrepareScene :: "state \<Rightarrow> fault + state" where
  "PrepareScene s =
     run_all
       [DefineObjectMaterials_call,
        SetupSceneLights,
        LoadSceneTextures,
        mesh_call LoadPlaneMesh,
        mesh_call LoadTorusMesh,
        mesh_call LoadCylinderMesh,
        mesh_call LoadSphereMesh] s"

text \<open>
  \<open>RenderScene\<close> is straight-line code: twelve blocks, each assigning the locals
  \<open>scaleXYZ\<close>, the three rotations and \<open>positionXYZ\<close>, then calling the five setters and
  one draw.  The locals are written at their use.  In the second block the assignment to
  \<open>scaleXYZ\<close> is commented out in the source, so the first block's value is used again.
\<close>

definition RenderScene :: "state \<Rightarrow> fault + state" where
  "RenderScene s =
     run_all
       [
        SetTransformations (Vec3 20 1 10) 0 0 0 (Vec3 0 0 0),
        SetShaderColor 1 1 1 1,
        SetTextureUVScale 4 4,
        SetShaderTexture ''greyplastic'',
        SetShaderMaterial ''clay'',
        mesh_call DrawPlaneMesh,
        SetTransformations (Vec3 20 1 10) 90 0 0 (Vec3 0 10 (- 10)),
        SetShaderColor 1 1 1 1,
        SetTextureUVScale 4 4,
        SetShaderTexture ''greyplastic'',
        SetShaderMaterial ''clay'',
        mesh_call DrawPlaneMesh,
        SetTransformations (Vec3 1 0.2 1) 0 0 0 (Vec3 0 0 0),
        SetShaderColor 0 0 0 1,
        SetTextureUVScale 0.2 0.2,
        SetShaderTexture ''carbonfiber'',
        SetShaderMaterial ''carbonfiber'',
        mesh_call DrawCylinderMesh,
        SetTransformations (Vec3 0.1 4.7 0.1) 0 0 0 (Vec3 0 0.2 (- 0.8)),
        SetShaderColor 0 0 0 1,
        SetTextureUVScale 2 8,
        SetShaderTexture ''blackmetal'',
        SetShaderMaterial ''blackmetal'',
        mesh_call DrawCylinderMesh,
        SetTransformations (Vec3 0.2 1.2 0.2) 0 0 0 (Vec3 0 2.2 (- 0.8)),
        SetShaderColor 0 0 0 1,
        SetTextureUVScale 0.6 0.6,
        SetShaderTexture ''carbonfiber'',
        SetShaderMaterial ''carbonfiber'',
        mesh_call DrawCylinderMesh,
        SetTransformations (Vec3 0.2 0.1 0.2) 0 0 0 (Vec3 0 4.6 (- 0.8)),
        SetShaderColor 0 0 0 1,
        SetTextureUVScale 0.6 0.6,
        SetShaderTexture ''carbonfiber'',
        SetShaderMaterial ''carbonfiber'',
        mesh_call DrawCylinderMesh,
        SetTransformations (Vec3 0.2 0.3 0.2) 0 0 0 (Vec3 0 4.78 (- 0.8)),
        SetShaderColor 0 0 0 1,
        SetTextureUVScale 0.6 0.6,
        SetShaderTexture ''carbonfiber'',
        SetShaderMaterial ''carbonfiber'',
        mesh_call DrawCylinderMesh,
        SetTransformations (Vec3 0.1 0.1 0.1) 0 0 0 (Vec3 0 5.1 (- 0.8)),
        SetShaderColor 0.8 0.8 0.8 1,
        SetTextureUVScale 2 2,
        SetShaderTexture ''metal'',
        SetShaderMaterial ''metal'',
        mesh_call DrawSphereMesh,
        SetTransformations (Vec3 0.03 0.11 0.03) 0 0 45 (Vec3 (- 0.04) 5.15 (- 0.8)),
        SetShaderColor 0.8 0.8 0.8 1,
        SetTextureUVScale 2 2,
        SetShaderTexture ''metal'',
        SetShaderMaterial ''metal'',
        mesh_call DrawCylinderMesh,
        SetTransformations (Vec3 0.1 0.1 0.1) 0 0 45 (Vec3 (- 0.1) 5.21 (- 0.8)),
        SetShaderColor 0 0 0 1,
        SetTextureUVScale 0.6 0.6,
        SetShaderTexture ''carbonfiber'',
        SetShaderMaterial ''carbonfiber'',
        mesh_call DrawCylinderMesh,
        SetTransformations (Vec3 1.1 1.1 1.1) 0 0 0 (Vec3 (- 1.1) 6.2 (- 0.8)),
        SetShaderColor 0.8 0.8 0.8 1,
        SetTextureUVScale 4 4,
        SetShaderTexture ''greyplastic'',
        SetShaderMaterial ''greyplastic'',
        mesh_call DrawTorusMesh,
        SetTransformations (Vec3 1 1 1) 0 0 0 (Vec3 (- 1.1) 6.2 (- 0.9)),
        SetShaderColor 0 0 0 1,
        SetTextureUVScale 0.6 0.6,
        SetShaderTexture ''blackmetal'',
        SetShaderMaterial ''blackmetal'',
        mesh_call DrawTorusMesh
       ] s"

section \<open>The object after construction, and example states\<close>

text \<open>
  Modelled from the spec: SceneManager.h is not part of the sources.  It declares the
  array \<open>m_textureIDs\<close> with 16 entries (the spec's "at most 16 textures", the source's
  "a total of 16 available slots") and the counter \<open>m_loadedTextures\<close>, here starting at 0
  with an empty material list.  The constructor stores the shader manager it is given.
  The environment (files on disk, names the driver will hand out) is a parameter.
\<close>

definition SceneManager_new ::
  "ShaderManager_ptr \<Rightarrow> (string \<times> image) list \<Rightarrow> GLuint list \<Rightarrow> state" where
  "SceneManager_new pShaderManager fs names =
     \<lparr>m_pShaderManager = pShaderManager,
      m_textureIDs = replicate 16 \<lparr>ID = 0, tag = []\<rparr>,
      m_loadedTextures = 0,
      m_objectMaterials = [],
      files = fs,
      gl_names = names,
      uninit_material = \<lparr>ambientColor = Vec3 0 0 0, ambientStrength = 0,
        diffuseColor = Vec3 0 0 0, specularColor = Vec3 0 0 0, shininess = 0, tag = []\<rparr>,
      trace = []\<rparr>"

text \<open>A disk with one image file, decoded with 3 channels.\<close>

definition metal_file :: "(string \<times> image) list" where
  "metal_file = [(''textures/metal.jpg'', \<lparr>width = 64, height = 64, colorChannels = 3\<rparr>)]"

text \<open>Image files for the four textures of the scene (one of them with an alpha channel).\<close>

definition scene_files :: "(string \<times> image) list" where
  "scene_files =
     [(''textures/blackmetal.jpg'', \<lparr>width = 512, height = 512, colorChannels = 3\<rparr>),
      (''textures/carbonfiber.png'', \<lparr>width = 256, height = 256, colorChannels = 4\<rparr>),
      (''textures/metal.jpg'', \<lparr>width = 64, height = 64, colorChannels = 3\<rparr>),
      (''textures/greyplastic.jpg'', \<lparr>width = 128, height = 128, colorChannels = 3\<rparr>)]"

text \<open>The state a call of \<open>CreateGLTexture\<close> leaves behind, when it returns.\<close>

definition state_of :: "fault + (bool \<times> state) \<Rightarrow> state option" where
  "state_of r = (case r of Inl e \<Rightarrow> None | Inr (b, s) \<Rightarrow> Some s)"

text \<open>
  \<open>one_texture\<close>: the object after one successful \<open>CreateGLTexture\<close> with a driver that
  hands out the name 1.  \<open>texture_minus_one\<close>: the same with a driver that hands out the
  name \<open>0xFFFFFFFF\<close>.
\<close>

definition one_texture :: "state option" where
  "one_texture =
     state_of (CreateGLTexture ''textures/metal.jpg'' ''metal''
       (SceneManager_new ShaderManager metal_file [1]))"

definition texture_minus_one :: "state option" where
  "texture_minus_one =
     state_of (CreateGLTexture ''textures/metal.jpg'' ''metal''
       (SceneManager_new ShaderManager metal_file [4294967295]))"

text \<open>
  A registry state with one loaded texture: object 1 under the tag metal.  The driver's
  next free name is 2.
\<close>

definition loaded_metal :: state where
  "loaded_metal =
     (SceneManager_new ShaderManager metal_file [2])
       \<lparr>m_textureIDs := (replicate 16 \<lparr>ID = 0, tag = []\<rparr>)[0 := \<lparr>ID = 1, tag = ''metal''\<rparr>],
        m_loadedTextures := 1\<rparr>"

text \<open>A registry state with all 16 entries in use.\<close>

definition full_registry :: state where
  "full_registry =
     (SceneManager_new ShaderManager metal_file [17])
       \<lparr>m_textureIDs := replicate 16 \<lparr>ID = 1, tag = ''metal''\<rparr>,
        m_loadedTextures := 16\<rparr>"

section \<open>Specification-side definitions and proof vocabulary\<close>

text \<open>
  The model matrix in the spec's words: the product, from left to right, of the
  translation, the rotations about Z, Y and X (angles converted from degrees to radians)
  and the scale.
\<close>

definition spec_model_matrix :: "vec3 \<Rightarrow> float \<Rightarrow> float \<Rightarrow> float \<Rightarrow> vec3 \<Rightarrow> mat4" where
  "spec_model_matrix scaleXYZ xDeg yDeg zDeg positionXYZ =
     foldl MatMul (GlmTranslate positionXYZ)
       [GlmRotate (GlmRadians zDeg) (Vec3 0 0 1),
        GlmRotate (GlmRadians yDeg) (Vec3 0 1 0),
        GlmRotate (GlmRadians xDeg) (Vec3 1 0 0),
        GlmScale scaleXYZ]"

text \<open>The draw calls among a list of events, in order.\<close>

fun is_draw :: "event \<Rightarrow> bool" where
  "is_draw DrawPlaneMesh = True"
| "is_draw DrawCylinderMesh = True"
| "is_draw DrawSphereMesh = True"
| "is_draw DrawTorusMesh = True"
| "is_draw _ = False"

definition draws_of :: "event list \<Rightarrow> event list" where
  "draws_of es = filter is_draw es"

text \<open>
  \<open>adds f ds\<close>: a run of \<open>f\<close> that returns has changed nothing but the trace, and the
  draw calls among the events it added are \<open>ds\<close>.
\<close>

definition adds :: "(state \<Rightarrow> fault + state) \<Rightarrow> event list \<Rightarrow> bool" where
  "adds f ds \<longleftrightarrow>
     (\<forall>s s'. f s = Inr s' \<longrightarrow> (\<exists>es. s' = s\<lparr>trace := trace s @ es\<rparr> \<and> draws_of es = ds))"

text \<open>
  \<open>safe s\<close>: the shader manager is not null and the counter does not point beyond the
  array.
\<close>

definition safe :: "state \<Rightarrow> bool" where
  "safe s \<longleftrightarrow> m_pShaderManager s \<noteq> NULL \<and> m_loadedTextures s \<le> int (length (m_textureIDs s))"

text \<open>The four basic meshes and their draw calls.\<close>

datatype mesh = Plane | Cylinder | Sphere | Torus

fun draw_event :: "mesh \<Rightarrow> event" where
  "draw_event Plane = DrawPlaneMesh"
| "draw_event Cylinder = DrawCylinderMesh"
| "draw_event Sphere = DrawSphereMesh"
| "draw_event Torus = DrawTorusMesh"

text \<open>
  One object of the scene in the spec's words: configure transform, colour, UV scale,
  texture and material, then draw the mesh.  A \<open>scene_object\<close> holds the scale, the three
  rotations in degrees, the position, the colour, the UV scale, the texture tag, the
  material tag and the mesh.
\<close>

datatype scene_object =
  SceneObject vec3 float float float vec3 vec4 vec2 string string mesh

fun object_mesh :: "scene_object \<Rightarrow> mesh" where
  "object_mesh (SceneObject scaleXYZ xDeg yDeg zDeg positionXYZ colour uv textureTag materialTag m) = m"

fun configure_and_draw :: "scene_object \<Rightarrow> (state \<Rightarrow> fault + state) list" where
  "configure_and_draw
     (SceneObject scaleXYZ xDeg yDeg zDeg positionXYZ (Vec4 r g b a) (Vec2 u v) textureTag materialTag m) =
     [SetTransformations scaleXYZ xDeg yDeg zDeg positionXYZ,
      SetShaderColor r g b a,
      SetTextureUVScale u v,
      SetShaderTexture textureTag,
      SetShaderMaterial materialTag,
      mesh_call (draw_event m)]"

text \<open>The twelve objects of the scene, in the order \<open>RenderScene\<close> handles them.\<close>

definition scene_objects :: "scene_object list" where
  "scene_objects =
     [
      SceneObject (Vec3 20 1 10) 0 0 0 (Vec3 0 0 0) (Vec4 1 1 1 1) (Vec2 4 4) ''greyplastic'' ''clay'' Plane,
      SceneObject (Vec3 20 1 10) 90 0 0 (Vec3 0 10 (- 10)) (Vec4 1 1 1 1) (Vec2 4 4) ''greyplastic'' ''clay'' Plane,
      SceneObject (Vec3 1 0.2 1) 0 0 0 (Vec3 0 0 0) (Vec4 0 0 0 1) (Vec2 0.2 0.2) ''carbonfiber'' ''carbonfiber'' Cylinder,
      SceneObject (Vec3 0.1 4.7 0.1) 0 0 0 (Vec3 0 0.2 (- 0.8)) (Vec4 0 0 0 1) (Vec2 2 8) ''blackmetal'' ''blackmetal'' Cylinder,
      SceneObject (Vec3 0.2 1.2 0.2) 0 0 0 (Vec3 0 2.2 (- 0.8)) (Vec4 0 0 0 1) (Vec2 0.6 0.6) ''carbonfiber'' ''carbonfiber'' Cylinder,
      SceneObject (Vec3 0.2 0.1 0.2) 0 0 0 (Vec3 0 4.6 (- 0.8)) (Vec4 0 0 0 1) (Vec2 0.6 0.6) ''carbonfiber'' ''carbonfiber'' Cylinder,
      SceneObject (Vec3 0.2 0.3 0.2) 0 0 0 (Vec3 0 4.78 (- 0.8)) (Vec4 0 0 0 1) (Vec2 0.6 0.6) ''carbonfiber'' ''carbonfiber'' Cylinder,
      SceneObject (Vec3 0.1 0.1 0.1) 0 0 0 (Vec3 0 5.1 (- 0.8)) (Vec4 0.8 0.8 0.8 1) (Vec2 2 2) ''metal'' ''metal'' Sphere,
      SceneObject (Vec3 0.03 0.11 0.03) 0 0 45 (Vec3 (- 0.04) 5.15 (- 0.8)) (Vec4 0.8 0.8 0.8 1) (Vec2 2 2) ''metal'' ''metal'' Cylinder,
      SceneObject (Vec3 0.1 0.1 0.1) 0 0 45 (Vec3 (- 0.1) 5.21 (- 0.8)) (Vec4 0 0 0 1) (Vec2 0.6 0.6) ''carbonfiber'' ''carbonfiber'' Cylinder,
      SceneObject (Vec3 1.1 1.1 1.1) 0 0 0 (Vec3 (- 1.1) 6.2 (- 0.8)) (Vec4 0.8 0.8 0.8 1) (Vec2 4 4) ''greyplastic'' ''greyplastic'' Torus,
      SceneObject (Vec3 1 1 1) 0 0 0 (Vec3 (- 1.1) 6.2 (- 0.9)) (Vec4 0 0 0 1) (Vec2 0.6 0.6) ''blackmetal'' ''blackmetal'' Torus
     ]"

text \<open>
  The calls on the shader manager that configure one object in state \<open>s\<close>: the model
  matrix, the colour, the UV scale, the texture slot found for the tag, and the material
  found for the tag when the material list is not empty.
\<close>

definition texture_slot :: "state \<Rightarrow> string \<Rightarrow> int" where
  "texture_slot s tg = (case FindTextureSlot tg s of Inl e \<Rightarrow> - 1 | Inr r \<Rightarrow> r)"

definition material_events :: "state \<Rightarrow> string \<Rightarrow> event list" where
  "material_events s tg =
     (if m_objectMaterials s = [] then []
      else (let material = snd (FindMaterial tg ((uninit_material s)\<lparr>OBJECT_MATERIAL.tag := []\<rparr>) s)
            in [SetVec3Value ''material.ambientColor'' (ambientColor material),
                SetFloatValue ''material.ambientStrength'' (ambientStrength material),
                SetVec3Value ''material.diffuseColor'' (diffuseColor material),
                SetVec3Value ''material.specularColor'' (specularColor material),
                SetFloatValue ''material.shininess'' (shininess material)]))"

fun configuration_events :: "state \<Rightarrow> scene_object \<Rightarrow> event list" where
  "configuration_events s
     (SceneObject scaleXYZ xDeg yDeg zDeg positionXYZ colour uv textureTag materialTag m) =
     [SetMat4Value ''model'' (spec_model_matrix scaleXYZ xDeg yDeg zDeg positionXYZ),
      SetIntValue ''bUseTexture'' 0,
      SetVec4Value ''objectColor'' colour,
      SetVec2Value ''UVscale'' uv,
      SetIntValue ''bUseTexture'' 1,
      SetSampler2DValue ''objectTexture'' (texture_slot s textureTag)]
     @ material_events s materialTag"

text \<open>\<open>loads s f\<close>: stb_image decodes file \<open>f\<close> with 3 or 4 colour channels.\<close>

definition loads :: "state \<Rightarrow> string \<Rightarrow> bool" where
  "loads s filename =
     (case map_of (files s) filename of
        None \<Rightarrow> False
      | Some im \<Rightarrow> colorChannels im = 3 \<or> colorChannels im = 4)"

text \<open>The calls \<open>BindGLTextures\<close> makes for the textures loaded in \<open>s\<close>.\<close>

definition bind_events :: "state \<Rightarrow> event list" where
  "bind_events s =
     concat (map (\<lambda>i. [GlActiveTexture (int i),
                         GlBindTexture ''GL_TEXTURE_2D'' (ID (m_textureIDs s ! i))])
                 [0 ..< nat (m_loadedTextures s)])"

text \<open>
  \<open>registry_kept s s'\<close>: from \<open>s\<close> to \<open>s'\<close> the counter has not decreased, the array has
  kept its size and every tag registered in \<open>s\<close> is still at its index.
\<close>

definition registry_kept :: "state \<Rightarrow> state \<Rightarrow> bool" where
  "registry_kept s s' \<longleftrightarrow>
     m_loadedTextures s \<le> m_loadedTextures s' \<and>
     length (m_textureIDs s') = length (m_textureIDs s) \<and>
     map TEXTURE_INFO.tag (take (nat (m_loadedTextures s)) (m_textureIDs s')) =
       map TEXTURE_INFO.tag (take (nat (m_loadedTextures s)) (m_textureIDs s))"

text \<open>\<open>keeps f\<close>: every run of \<open>f\<close> that returns has kept the registry.\<close>

definition keeps :: "(state \<Rightarrow> fault + state) \<Rightarrow> bool" where
  "keeps f \<longleftrightarrow> (\<forall>s s'. f s = Inr s' \<longrightarrow> registry_kept s s')"

text \<open>
  The methods of SceneManager as operations on the state.  A method that returns a value
  and changes nothing (the three finders) hands back the state it was given.
\<close>

datatype operation =
    OpCreateGLTexture string string
  | OpBindGLTextures
  | OpDestroyGLTextures
  | OpFindTextureID string
  | OpFindTextureSlot string
  | OpFindMaterial string OBJECT_MATERIAL
  | OpSetTransformations vec3 float float float vec3
  | OpSetShaderColor float float float float
  | OpSetShaderTexture string
  | OpSetTextureUVScale float float
  | OpSetShaderMaterial string
  | OpDefineObjectMaterials
  | OpSetupSceneLights
  | OpLoadSceneTextures
  | OpPrepareScene
  | OpRenderScene

fun perform :: "operation \<Rightarrow> state \<Rightarrow> fault + state" where
  "perform (OpCreateGLTexture filename tg) s = CreateGLTexture_call filename tg s"
| "perform OpBindGLTextures s = BindGLTextures s"
| "perform OpDestroyGLTextures s = DestroyGLTextures s"
| "perform (OpFindTextureID tg) s = (case FindTextureID tg s of Inl e \<Rightarrow> Inl e | Inr r \<Rightarrow> Inr s)"
| "perform (OpFindTextureSlot tg) s = (case FindTextureSlot tg s of Inl e \<Rightarrow> Inl e | Inr r \<Rightarrow> Inr s)"
| "perform (OpFindMaterial tg material) s = (case FindMaterial tg material s of (b, m) \<Rightarrow> Inr s)"
| "perform (OpSetTransformations scaleXYZ xDeg yDeg zDeg positionXYZ) s =
     SetTransformations scaleXYZ xDeg yDeg zDeg positionXYZ s"
| "perform (OpSetShaderColor r g b a) s = SetShaderColor r g b a s"
| "perform (OpSetShaderTexture tg) s = SetShaderTexture tg s"
| "perform (OpSetTextureUVScale u v) s = SetTextureUVScale u v s"
| "perform (OpSetShaderMaterial tg) s = SetShaderMaterial tg s"
| "perform OpDefineObjectMaterials s = DefineObjectMaterials_call s"
| "perform OpSetupSceneLights s = SetupSceneLights s"
| "perform OpLoadSceneTextures s = LoadSceneTextures s"
| "perform OpPrepareScene s = PrepareScene s"
| "perform OpRenderScene s = RenderScene s"

section \<open>Basic facts\<close>

lemma emit_fields [simp]:
  "trace (emit e s) = trace s @ [e]"
  "m_loadedTextures (emit e s) = m_loadedTextures s"
  "m_textureIDs (emit e s) = m_textureIDs s"
  "m_pShaderManager (emit e s) = m_pShaderManager s"
  "m_objectMaterials (emit e s) = m_objectMaterials s"
  "files (emit e s) = files s"
  "gl_names (emit e s) = gl_names s"
  "uninit_material (emit e s) = uninit_material s"
  by (simp_all add: emit_def)

lemma glGenTextures_fields [simp]:
  "m_loadedTextures (snd (glGenTextures x s)) = m_loadedTextures s"
  "m_textureIDs (snd (glGenTextures x s)) = m_textureIDs s"
  "m_pShaderManager (snd (glGenTextures x s)) = m_pShaderManager s"
  "m_objectMaterials (snd (glGenTextures x s)) = m_objectMaterials s"
  "files (snd (glGenTextures x s)) = files s"
  "uninit_material (snd (glGenTextures x s)) = uninit_material s"
  "trace (snd (glGenTextures x s)) = trace s @ [GlGenTextures 1]"
  by (simp_all add: glGenTextures_def split: list.split)

section \<open>FindMaterial\<close>

lemma FindMaterial_while_found: "FindMaterial_while ms tg index True material = material"
  by (simp add: FindMaterial_while.simps)

lemma FindMaterial_while_find:
  "0 \<le> index \<Longrightarrow> \<not> bFound \<Longrightarrow>
   FindMaterial_while ms tg index bFound material =
     (case find (\<lambda>x. OBJECT_MATERIAL.tag x = tg) (drop (nat index) ms) of
        None \<Rightarrow> material
      | Some x \<Rightarrow>
          material\<lparr>ambientColor := ambientColor x, ambientStrength := ambientStrength x,
            diffuseColor := diffuseColor x, specularColor := specularColor x,
            shininess := shininess x\<rparr>)"
proof (induction ms tg index bFound material rule: FindMaterial_while.induct)
  case (1 ms tg index bFound material)
  show ?case
  proof (cases "index < int (length ms)")
    case False
    then show ?thesis
      using 1(3,4) by (simp add: FindMaterial_while.simps [of ms tg index])
  next
    case True
    then have d: "drop (nat index) ms = ms ! nat index # drop (nat (index + 1)) ms"
      using 1(3) by (simp add: Cons_nth_drop_Suc nat_add_distrib)
    show ?thesis
    proof (cases "OBJECT_MATERIAL.tag (ms ! nat index) = tg")
      case m: True
      show ?thesis using True m 1(3,4) d
        by (simp add: FindMaterial_while.simps [of ms tg index False] FindMaterial_while_found)
    next
      case m: False
      have "FindMaterial_while ms tg (index + 1) bFound material =
         (case find (\<lambda>x. OBJECT_MATERIAL.tag x = tg) (drop (nat (index + 1)) ms) of
            None \<Rightarrow> material
          | Some x \<Rightarrow>
              material\<lparr>ambientColor := ambientColor x, ambientStrength := ambientStrength x,
                diffuseColor := diffuseColor x, specularColor := specularColor x,
                shininess := shininess x\<rparr>)"
        using 1(2) True m 1(3,4) by simp
      then show ?thesis using True m 1(3,4) d
        by (simp add: FindMaterial_while.simps [of ms tg index False])
    qed
  qed
qed

text \<open>
  C3.  \<open>FindMaterial\<close> returns false exactly when the material list is empty.  On a
  non-empty list with no entry of the given tag it returns true and leaves the
  out-parameter as it was.  When entry \<open>i\<close> is the first one with the given tag, it returns
  true and the out-parameter has received that entry's ambientColor, ambientStrength,
  diffuseColor, specularColor and shininess.
\<close>

theorem FindMaterial_result:
  "(fst (FindMaterial tg material s) = False \<longleftrightarrow> m_objectMaterials s = []) \<and>
   (m_objectMaterials s \<noteq> [] \<and> (\<forall>x \<in> set (m_objectMaterials s). OBJECT_MATERIAL.tag x \<noteq> tg)
      \<longrightarrow> FindMaterial tg material s = (True, material)) \<and>
   (\<forall>i. i < length (m_objectMaterials s) \<and> OBJECT_MATERIAL.tag (m_objectMaterials s ! i) = tg \<and>
        (\<forall>j < i. OBJECT_MATERIAL.tag (m_objectMaterials s ! j) \<noteq> tg)
      \<longrightarrow> FindMaterial tg material s =
            (True, material\<lparr>ambientColor := ambientColor (m_objectMaterials s ! i),
                             ambientStrength := ambientStrength (m_objectMaterials s ! i),
                             diffuseColor := diffuseColor (m_objectMaterials s ! i),
                             specularColor := specularColor (m_objectMaterials s ! i),
                             shininess := shininess (m_objectMaterials s ! i)\<rparr>))"
proof (intro conjI allI impI)
  show "fst (FindMaterial tg material s) = False \<longleftrightarrow> m_objectMaterials s = []"
    by (simp add: FindMaterial_def)
next
  assume a: "m_objectMaterials s \<noteq> [] \<and> (\<forall>x \<in> set (m_objectMaterials s). OBJECT_MATERIAL.tag x \<noteq> tg)"
  then have "find (\<lambda>x. OBJECT_MATERIAL.tag x = tg) (m_objectMaterials s) = None"
    by (simp add: find_None_iff)
  then show "FindMaterial tg material s = (True, material)"
    using a by (simp add: FindMaterial_def FindMaterial_while_find)
next
  fix i
  let ?ms = "m_objectMaterials s"
  assume a: "i < length ?ms \<and> OBJECT_MATERIAL.tag (?ms ! i) = tg \<and>
        (\<forall>j < i. OBJECT_MATERIAL.tag (?ms ! j) \<noteq> tg)"
  then have "find (\<lambda>x. OBJECT_MATERIAL.tag x = tg) ?ms = Some (?ms ! i)"
    by (auto simp: find_Some_iff)
  moreover from a have "?ms \<noteq> []" by auto
  ultimately show "FindMaterial tg material s =
            (True, material\<lparr>ambientColor := ambientColor (?ms ! i),
                             ambientStrength := ambientStrength (?ms ! i),
                             diffuseColor := diffuseColor (?ms ! i),
                             specularColor := specularColor (?ms ! i),
                             shininess := shininess (?ms ! i)\<rparr>)"
    by (simp add: FindMaterial_def FindMaterial_while_find)
qed

theorem FindMaterial_result_witness:
  "FindMaterial ''metal'' (uninit_material (SceneManager_new ShaderManager [] []))
      (DefineObjectMaterials (SceneManager_new ShaderManager [] [])) =
     (True, \<lparr>ambientColor = Vec3 0.8 0.8 0.8, ambientStrength = 0.8,
             diffuseColor = Vec3 0.8 0.8 0.8, specularColor = Vec3 1 1 1,
             shininess = 100, tag = []\<rparr>) \<and>
   FindMaterial ''wood'' (uninit_material (SceneManager_new ShaderManager [] []))
      (DefineObjectMaterials (SceneManager_new ShaderManager [] [])) =
     (True, uninit_material (SceneManager_new ShaderManager [] [])) \<and>
   fst (FindMaterial ''metal'' (uninit_material (SceneManager_new ShaderManager [] []))
      (SceneManager_new ShaderManager [] [])) = False"
proof -
  let ?new = "SceneManager_new ShaderManager [] []"
  let ?s = "DefineObjectMaterials ?new"
  have ms: "m_objectMaterials ?s =
     [\<lparr>ambientColor = Vec3 0.5 0.5 0.5, ambientStrength = 0.5,
            diffuseColor = Vec3 0.2 0.2 0.2, specularColor = Vec3 0.5 0.5 0.5,
            shininess = 128, tag = ''blackmetal''\<rparr>,
      \<lparr>ambientColor = Vec3 0.5 0.5 0.5, ambientStrength = 0.4,
            diffuseColor = Vec3 0.4 0.4 0.4, specularColor = Vec3 0.8 0.8 0.8,
            shininess = 0.5, tag = ''carbonfiber''\<rparr>,
      \<lparr>ambientColor = Vec3 0.8 0.8 0.8, ambientStrength = 0.8,
            diffuseColor = Vec3 0.8 0.8 0.8, specularColor = Vec3 1 1 1,
            shininess = 100, tag = ''metal''\<rparr>,
      \<lparr>ambientColor = Vec3 1 1 1, ambientStrength = 0.8,
            diffuseColor = Vec3 1 1 1, specularColor = Vec3 1 1 1,
            shininess = 65, tag = ''greyplastic''\<rparr>,
      \<lparr>ambientColor = Vec3 0.2 0.2 0.3, ambientStrength = 0.3,
            diffuseColor = Vec3 0.4 0.4 0.5, specularColor = Vec3 0.2 0.2 0.4,
            shininess = 0.5, tag = ''clay''\<rparr>]"
    by (simp add: DefineObjectMaterials_def push_back_def SceneManager_new_def Let_def)
  have u: "uninit_material ?new = \<lparr>ambientColor = Vec3 0 0 0, ambientStrength = 0,
        diffuseColor = Vec3 0 0 0, specularColor = Vec3 0 0 0, shininess = 0, tag = []\<rparr>"
    by (simp add: SceneManager_new_def)
  have e: "m_objectMaterials ?new = []" by (simp add: SceneManager_new_def)
  have two: "\<And>P. (\<forall>j<2::nat. P j) \<longleftrightarrow> P 0 \<and> P 1"
    by (auto simp: less_2_cases_iff)
  note r = FindMaterial_result [of "''metal''" "uninit_material ?new" ?s]
     FindMaterial_result [of "''wood''" "uninit_material ?new" ?s]
     FindMaterial_result [of "''metal''" "uninit_material ?new" ?new]
  from r(1) have "FindMaterial ''metal'' (uninit_material ?new) ?s =
     (True, \<lparr>ambientColor = Vec3 0.8 0.8 0.8, ambientStrength = 0.8,
             diffuseColor = Vec3 0.8 0.8 0.8, specularColor = Vec3 1 1 1,
             shininess = 100, tag = []\<rparr>)"
    apply (elim conjE)
    apply (drule spec [of _ 2])
    apply (simp add: ms u two)
    done
  moreover from r(2) have "FindMaterial ''wood'' (uninit_material ?new) ?s = (True, uninit_material ?new)"
    by (simp add: ms)
  moreover from r(3) have "fst (FindMaterial ''metal'' (uninit_material ?new) ?new) = False"
    by (simp add: e)
  ultimately show ?thesis by simp
qed

section \<open>The setters\<close>

text \<open>
  C9.  \<open>SetTransformations\<close> sets the uniform \<open>model\<close> to the product
  translation * rotationZ * rotationY * rotationX * scale, each rotation about its
  coordinate axis by the angle converted to radians; with a null shader manager it sets
  nothing.
\<close>

theorem SetTransformations_model_matrix:
  "SetTransformations scaleXYZ xDeg yDeg zDeg positionXYZ s =
     (if m_pShaderManager s = NULL then Inr s
      else Inr (s\<lparr>trace := trace s @
             [SetMat4Value ''model'' (spec_model_matrix scaleXYZ xDeg yDeg zDeg positionXYZ)]\<rparr>))"
  by (simp add: SetTransformations_def spec_model_matrix_def shader_call_def emit_def
      g_ModelName_def Let_def)

theorem SetTransformations_model_matrix_witness:
  "SetTransformations (Vec3 20 1 10) 90 0 0 (Vec3 0 10 (- 10)) (SceneManager_new ShaderManager [] []) =
     Inr ((SceneManager_new ShaderManager [] [])\<lparr>trace :=
       [SetMat4Value ''model''
          (MatMul (MatMul (MatMul (MatMul (GlmTranslate (Vec3 0 10 (- 10)))
             (GlmRotate (GlmRadians 0) (Vec3 0 0 1)))
             (GlmRotate (GlmRadians 0) (Vec3 0 1 0)))
             (GlmRotate (GlmRadians 90) (Vec3 1 0 0)))
             (GlmScale (Vec3 20 1 10)))]\<rparr>) \<and>
   SetTransformations (Vec3 20 1 10) 90 0 0 (Vec3 0 10 (- 10)) (SceneManager_new NULL [] []) =
     Inr (SceneManager_new NULL [] [])"
  using SetTransformations_model_matrix [of "Vec3 20 1 10" 90 0 0 "Vec3 0 10 (- 10)" "SceneManager_new ShaderManager [] []"]
    SetTransformations_model_matrix [of "Vec3 20 1 10" 90 0 0 "Vec3 0 10 (- 10)" "SceneManager_new NULL [] []"]
  by (simp add: SceneManager_new_def spec_model_matrix_def)

text \<open>
  C10.  With a null shader manager, \<open>SetTransformations\<close>, \<open>SetShaderColor\<close>,
  \<open>SetShaderTexture\<close> and \<open>SetTextureUVScale\<close> return the state they were given: no event
  is added to the trace and no member changes.
\<close>

theorem null_shader_setters_noop:
  "m_pShaderManager s = NULL \<Longrightarrow>
     SetTransformations scaleXYZ xDeg yDeg zDeg positionXYZ s = Inr s \<and>
     SetShaderColor r g b a s = Inr s \<and>
     SetShaderTexture textureTag s = Inr s \<and>
     SetTextureUVScale u v s = Inr s"
  by (simp add: SetTransformations_def SetShaderColor_def SetShaderTexture_def
      SetTextureUVScale_def Let_def)

theorem null_shader_setters_noop_witness:
  "m_pShaderManager (SceneManager_new NULL [] []) = NULL \<and>
   SetTransformations (Vec3 20 1 10) 0 0 0 (Vec3 0 0 0) (SceneManager_new NULL [] []) =
     Inr (SceneManager_new NULL [] []) \<and>
   SetShaderColor 1 1 1 1 (SceneManager_new NULL [] []) = Inr (SceneManager_new NULL [] []) \<and>
   SetShaderTexture ''greyplastic'' (SceneManager_new NULL [] []) = Inr (SceneManager_new NULL [] []) \<and>
   SetTextureUVScale 4 4 (SceneManager_new NULL [] []) = Inr (SceneManager_new NULL [] [])"
proof -
  have h: "m_pShaderManager (SceneManager_new NULL [] []) = NULL"
    by (simp add: SceneManager_new_def)
  show ?thesis
    using h null_shader_setters_noop [OF h, of "Vec3 20 1 10" 0 0 0 "Vec3 0 0 0" 1 1 1 1 "''greyplastic''" 4 4]
    by simp
qed

section \<open>FindTextureID and FindTextureSlot\<close>

lemma FindTextureSlot_while_found: "FindTextureSlot_while s tg slot index True = Inr slot"
  by (simp add: FindTextureSlot_while.simps)

lemma FindTextureID_while_found: "FindTextureID_while s tg x index True = Inr x"
  by (simp add: FindTextureID_while.simps)

lemma FindTextureSlot_while_scan:
  assumes "0 \<le> index" "m_loadedTextures s \<le> int (length (m_textureIDs s))" "\<not> bFound"
  shows "(\<exists>i. index \<le> i \<and> i < m_loadedTextures s \<and>
            TEXTURE_INFO.tag (m_textureIDs s ! nat i) = tg \<and>
            (\<forall>j. index \<le> j \<and> j < i \<longrightarrow> TEXTURE_INFO.tag (m_textureIDs s ! nat j) \<noteq> tg) \<and>
            FindTextureSlot_while s tg slot index bFound = Inr i \<and>
            FindTextureID_while s tg x index bFound = Inr (sint (ID (m_textureIDs s ! nat i))))
       \<or> ((\<forall>j. index \<le> j \<and> j < m_loadedTextures s \<longrightarrow>
               TEXTURE_INFO.tag (m_textureIDs s ! nat j) \<noteq> tg) \<and>
           FindTextureSlot_while s tg slot index bFound = Inr slot \<and>
           FindTextureID_while s tg x index bFound = Inr x)"
  using assms
proof (induction s tg slot index bFound rule: FindTextureSlot_while.induct)
  case (1 s tg slot index bFound)
  let ?n = "m_loadedTextures s"
  let ?t = "\<lambda>i. TEXTURE_INFO.tag (m_textureIDs s ! nat i)"
  show ?case
  proof (cases "index < ?n")
    case False
    then have "FindTextureSlot_while s tg slot index bFound = Inr slot"
      and "FindTextureID_while s tg x index bFound = Inr x"
      by (simp_all add: FindTextureSlot_while.simps [of s tg slot index]
          FindTextureID_while.simps [of s tg x index])
    moreover have "\<forall>j. index \<le> j \<and> j < ?n \<longrightarrow> ?t j \<noteq> tg"
      using False by auto
    ultimately show ?thesis by blast
  next
    case True
    then have rd: "tex_read s index = Inr (m_textureIDs s ! nat index)"
      using 1(3,4) by (simp add: tex_read_def)
    show ?thesis
    proof (cases "?t index = tg")
      case m: True
      have "FindTextureSlot_while s tg slot index bFound = Inr index"
        using True m rd 1(5)
        by (simp add: FindTextureSlot_while.simps [of s tg slot index] FindTextureSlot_while_found)
      moreover have "FindTextureID_while s tg x index bFound = Inr (sint (ID (m_textureIDs s ! nat index)))"
        using True m rd 1(5)
        by (simp add: FindTextureID_while.simps [of s tg x index] FindTextureID_while_found)
      moreover have "\<forall>j. index \<le> j \<and> j < index \<longrightarrow> ?t j \<noteq> tg"
      proof (intro allI impI)
        fix j :: int
        assume "index \<le> j \<and> j < index"
        then have False by arith
        then show "?t j \<noteq> tg" ..
      qed
      moreover have "index \<le> index" by simp
      ultimately show ?thesis using True m by blast
    next
      case m: False
      have step1: "FindTextureSlot_while s tg slot index bFound = FindTextureSlot_while s tg slot (index + 1) bFound"
        using True m rd 1(5) by (simp add: FindTextureSlot_while.simps [of s tg slot index])
      have step2: "FindTextureID_while s tg x index bFound = FindTextureID_while s tg x (index + 1) bFound"
        using True m rd 1(5) by (simp add: FindTextureID_while.simps [of s tg x index])
      have ih: "(\<exists>i. index + 1 \<le> i \<and> i < ?n \<and> ?t i = tg \<and>
            (\<forall>j. index + 1 \<le> j \<and> j < i \<longrightarrow> ?t j \<noteq> tg) \<and>
            FindTextureSlot_while s tg slot (index + 1) bFound = Inr i \<and>
            FindTextureID_while s tg x (index + 1) bFound = Inr (sint (ID (m_textureIDs s ! nat i))))
       \<or> ((\<forall>j. index + 1 \<le> j \<and> j < ?n \<longrightarrow> ?t j \<noteq> tg) \<and>
           FindTextureSlot_while s tg slot (index + 1) bFound = Inr slot \<and>
           FindTextureID_while s tg x (index + 1) bFound = Inr x)"
      proof (rule 1(2) [OF _ rd m])
        show "index < ?n \<and> bFound = False" using True 1(5) by simp
        show "0 \<le> index + 1" using 1(3) by simp
        show "?n \<le> int (length (m_textureIDs s))" by (rule 1(4))
        show "\<not> bFound" by (rule 1(5))
      qed
      have low: "\<And>j. index \<le> j \<Longrightarrow> j = index \<or> index + 1 \<le> j" by arith
      from ih show ?thesis
      proof
        assume "\<exists>i. index + 1 \<le> i \<and> i < ?n \<and> ?t i = tg \<and>
            (\<forall>j. index + 1 \<le> j \<and> j < i \<longrightarrow> ?t j \<noteq> tg) \<and>
            FindTextureSlot_while s tg slot (index + 1) bFound = Inr i \<and>
            FindTextureID_while s tg x (index + 1) bFound = Inr (sint (ID (m_textureIDs s ! nat i)))"
        then obtain i where i: "index + 1 \<le> i" "i < ?n" "?t i = tg"
            "\<forall>j. index + 1 \<le> j \<and> j < i \<longrightarrow> ?t j \<noteq> tg"
            "FindTextureSlot_while s tg slot (index + 1) bFound = Inr i"
            "FindTextureID_while s tg x (index + 1) bFound = Inr (sint (ID (m_textureIDs s ! nat i)))"
          by blast
        have "\<forall>j. index \<le> j \<and> j < i \<longrightarrow> ?t j \<noteq> tg"
          using i(4) m low by blast
        moreover have "index \<le> i" using i(1) by simp
        ultimately show ?thesis using i step1 step2 by (intro disjI1 exI [of _ i]) simp
      next
        assume a: "(\<forall>j. index + 1 \<le> j \<and> j < ?n \<longrightarrow> ?t j \<noteq> tg) \<and>
           FindTextureSlot_while s tg slot (index + 1) bFound = Inr slot \<and>
           FindTextureID_while s tg x (index + 1) bFound = Inr x"
        then have "\<forall>j. index \<le> j \<and> j < ?n \<longrightarrow> ?t j \<noteq> tg"
          using m low by blast
        then show ?thesis using a step1 step2 by (intro disjI2) simp
      qed
    qed
  qed
qed

text \<open>
  C5 (amended).  In a registry whose counter does not exceed the array,
  \<open>FindTextureSlot\<close> returns the least index below \<open>m_loadedTextures\<close> whose tag is the
  given one and \<open>FindTextureID\<close> returns the ID stored there, converted to \<open>int\<close>; when
  no such index exists both return -1.  So \<open>FindTextureSlot = -1\<close> implies
  \<open>FindTextureID = -1\<close>; the converse holds when no registered ID is \<open>0xFFFFFFFF\<close>, the
  \<open>GLuint\<close> that reads as -1.
\<close>

theorem FindTexture_least_index:
  assumes "m_loadedTextures s \<le> int (length (m_textureIDs s))"
  shows "((\<exists>i. 0 \<le> i \<and> i < m_loadedTextures s \<and>
            TEXTURE_INFO.tag (m_textureIDs s ! nat i) = tg \<and>
            (\<forall>j. 0 \<le> j \<and> j < i \<longrightarrow> TEXTURE_INFO.tag (m_textureIDs s ! nat j) \<noteq> tg) \<and>
            FindTextureSlot tg s = Inr i \<and>
            FindTextureID tg s = Inr (sint (ID (m_textureIDs s ! nat i))))
       \<or> ((\<forall>j. 0 \<le> j \<and> j < m_loadedTextures s \<longrightarrow>
               TEXTURE_INFO.tag (m_textureIDs s ! nat j) \<noteq> tg) \<and>
           FindTextureSlot tg s = Inr (- 1) \<and>
           FindTextureID tg s = Inr (- 1))) \<and>
      (FindTextureSlot tg s = Inr (- 1) \<longrightarrow> FindTextureID tg s = Inr (- 1)) \<and>
      ((\<forall>j. 0 \<le> j \<and> j < m_loadedTextures s \<longrightarrow> ID (m_textureIDs s ! nat j) \<noteq> - 1) \<longrightarrow>
         (FindTextureID tg s = Inr (- 1) \<longleftrightarrow> FindTextureSlot tg s = Inr (- 1)))"
proof -
  let ?n = "m_loadedTextures s"
  let ?t = "\<lambda>i. TEXTURE_INFO.tag (m_textureIDs s ! nat i)"
  have scan: "(\<exists>i. 0 \<le> i \<and> i < ?n \<and> ?t i = tg \<and>
            (\<forall>j. 0 \<le> j \<and> j < i \<longrightarrow> ?t j \<noteq> tg) \<and>
            FindTextureSlot tg s = Inr i \<and>
            FindTextureID tg s = Inr (sint (ID (m_textureIDs s ! nat i))))
       \<or> ((\<forall>j. 0 \<le> j \<and> j < ?n \<longrightarrow> ?t j \<noteq> tg) \<and>
           FindTextureSlot tg s = Inr (- 1) \<and>
           FindTextureID tg s = Inr (- 1))"
    unfolding FindTextureSlot_def FindTextureID_def
    using FindTextureSlot_while_scan [of 0 s False tg "- 1" "- 1"] assms by simp
  have m1: "sint w = - 1 \<longleftrightarrow> w = - 1" for w :: "32 word"
    using word_eq_iff_signed [of w "- 1", where ?'a = int] by (simp add: sint_n1)
  from scan show ?thesis
  proof
    assume "\<exists>i. 0 \<le> i \<and> i < ?n \<and> ?t i = tg \<and>
            (\<forall>j. 0 \<le> j \<and> j < i \<longrightarrow> ?t j \<noteq> tg) \<and>
            FindTextureSlot tg s = Inr i \<and>
            FindTextureID tg s = Inr (sint (ID (m_textureIDs s ! nat i)))"
    then obtain i where i: "0 \<le> i" "i < ?n" "?t i = tg"
        "\<forall>j. 0 \<le> j \<and> j < i \<longrightarrow> ?t j \<noteq> tg"
        "FindTextureSlot tg s = Inr i"
        "FindTextureID tg s = Inr (sint (ID (m_textureIDs s ! nat i)))"
      by blast
    have c1: "FindTextureSlot tg s \<noteq> Inr (- 1)" using i(1,5) by simp
    have c2: "(\<forall>j. 0 \<le> j \<and> j < ?n \<longrightarrow> ID (m_textureIDs s ! nat j) \<noteq> - 1) \<longrightarrow>
         FindTextureID tg s \<noteq> Inr (- 1)"
    proof
      assume "\<forall>j. 0 \<le> j \<and> j < ?n \<longrightarrow> ID (m_textureIDs s ! nat j) \<noteq> - 1"
      then have "ID (m_textureIDs s ! nat i) \<noteq> - 1" using i(1,2) by blast
      then show "FindTextureID tg s \<noteq> Inr (- 1)" using i(6) m1 by simp
    qed
    show ?thesis
    proof (intro conjI)
      show "(\<exists>i. 0 \<le> i \<and> i < ?n \<and> ?t i = tg \<and>
            (\<forall>j. 0 \<le> j \<and> j < i \<longrightarrow> ?t j \<noteq> tg) \<and>
            FindTextureSlot tg s = Inr i \<and>
            FindTextureID tg s = Inr (sint (ID (m_textureIDs s ! nat i))))
       \<or> ((\<forall>j. 0 \<le> j \<and> j < ?n \<longrightarrow> ?t j \<noteq> tg) \<and>
           FindTextureSlot tg s = Inr (- 1) \<and>
           FindTextureID tg s = Inr (- 1))" by (rule scan)
      show "FindTextureSlot tg s = Inr (- 1) \<longrightarrow> FindTextureID tg s = Inr (- 1)"
        using c1 by simp
      show "(\<forall>j. 0 \<le> j \<and> j < ?n \<longrightarrow> ID (m_textureIDs s ! nat j) \<noteq> - 1) \<longrightarrow>
         (FindTextureID tg s = Inr (- 1) \<longleftrightarrow> FindTextureSlot tg s = Inr (- 1))"
        using c1 c2 by blast
    qed
  next
    assume "(\<forall>j. 0 \<le> j \<and> j < ?n \<longrightarrow> ?t j \<noteq> tg) \<and>
           FindTextureSlot tg s = Inr (- 1) \<and> FindTextureID tg s = Inr (- 1)"
    then show ?thesis by simp
  qed
qed

theorem FindTexture_least_index_witness:
  "\<exists>s. one_texture = Some s \<and>
     m_loadedTextures s \<le> int (length (m_textureIDs s)) \<and>
     FindTextureSlot ''clay'' s = Inr (- 1) \<and> FindTextureID ''clay'' s = Inr (- 1) \<and>
     FindTextureSlot ''metal'' s = Inr 0 \<and> FindTextureID ''metal'' s = Inr 1"
proof -
  obtain s where s: "one_texture = Some s" "m_loadedTextures s = 1"
      "m_textureIDs s = (replicate 16 \<lparr>ID = 0, tag = []\<rparr>)[0 := \<lparr>ID = 1, tag = ''metal''\<rparr>]"
    by (simp add: one_texture_def state_of_def CreateGLTexture_def stbi_load_def
        glGenTextures_def tex_write_def metal_file_def SceneManager_new_def Let_def)
  have h: "m_loadedTextures s \<le> int (length (m_textureIDs s))"
    by (simp add: s)
  have zero: "j = 0" if "0 \<le> j \<and> j < m_loadedTextures s" for j :: int
    using that by (simp add: s)
  have ids: "\<forall>j. 0 \<le> j \<and> j < m_loadedTextures s \<longrightarrow> ID (m_textureIDs s ! nat j) \<noteq> - 1"
    using zero by (auto simp: s)
  have clay: "\<forall>j. 0 \<le> j \<and> j < m_loadedTextures s \<longrightarrow>
      TEXTURE_INFO.tag (m_textureIDs s ! nat j) \<noteq> ''clay''"
    using zero by (auto simp: s)
  have metal: "TEXTURE_INFO.tag (m_textureIDs s ! nat j) = ''metal''"
      "sint (ID (m_textureIDs s ! nat j)) = 1"
    if "0 \<le> j \<and> j < m_loadedTextures s" for j
    using zero [OF that] by (simp_all add: s)
  from FindTexture_least_index [OF h, of "''clay''"] clay
  have a: "FindTextureSlot ''clay'' s = Inr (- 1) \<and> FindTextureID ''clay'' s = Inr (- 1)"
    by blast
  have scan: "(\<exists>i. 0 \<le> i \<and> i < m_loadedTextures s \<and>
            TEXTURE_INFO.tag (m_textureIDs s ! nat i) = ''metal'' \<and>
            (\<forall>j. 0 \<le> j \<and> j < i \<longrightarrow> TEXTURE_INFO.tag (m_textureIDs s ! nat j) \<noteq> ''metal'') \<and>
            FindTextureSlot ''metal'' s = Inr i \<and>
            FindTextureID ''metal'' s = Inr (sint (ID (m_textureIDs s ! nat i))))
       \<or> ((\<forall>j. 0 \<le> j \<and> j < m_loadedTextures s \<longrightarrow>
               TEXTURE_INFO.tag (m_textureIDs s ! nat j) \<noteq> ''metal'') \<and>
           FindTextureSlot ''metal'' s = Inr (- 1) \<and>
           FindTextureID ''metal'' s = Inr (- 1))"
    using FindTexture_least_index [OF h, of "''metal''"] by (rule conjunct1)
  have b: "FindTextureSlot ''metal'' s = Inr 0 \<and> FindTextureID ''metal'' s = Inr 1"
    using scan
  proof
    assume "\<exists>i. 0 \<le> i \<and> i < m_loadedTextures s \<and>
            TEXTURE_INFO.tag (m_textureIDs s ! nat i) = ''metal'' \<and>
            (\<forall>j. 0 \<le> j \<and> j < i \<longrightarrow> TEXTURE_INFO.tag (m_textureIDs s ! nat j) \<noteq> ''metal'') \<and>
            FindTextureSlot ''metal'' s = Inr i \<and>
            FindTextureID ''metal'' s = Inr (sint (ID (m_textureIDs s ! nat i)))"
    then obtain i where i: "0 \<le> i \<and> i < m_loadedTextures s"
        "FindTextureSlot ''metal'' s = Inr i"
        "FindTextureID ''metal'' s = Inr (sint (ID (m_textureIDs s ! nat i)))"
      by blast
    show ?thesis using i(2,3) zero [OF i(1)] metal(2) [OF i(1)] by simp
  next
    assume "(\<forall>j. 0 \<le> j \<and> j < m_loadedTextures s \<longrightarrow>
               TEXTURE_INFO.tag (m_textureIDs s ! nat j) \<noteq> ''metal'') \<and>
           FindTextureSlot ''metal'' s = Inr (- 1) \<and>
           FindTextureID ''metal'' s = Inr (- 1)"
    then have "0 \<le> (0::int) \<and> 0 < m_loadedTextures s \<longrightarrow>
        TEXTURE_INFO.tag (m_textureIDs s ! nat 0) \<noteq> ''metal''"
      by blast
    then show ?thesis by (simp add: s)
  qed
  from s(1) h a b show ?thesis by blast
qed

theorem FindTextureID_minus_one_counterexample:
  "map_option (FindTextureID ''metal'') texture_minus_one = Some (Inr (- 1)) \<and>
   map_option (FindTextureSlot ''metal'') texture_minus_one = Some (Inr 0)"
proof -
  obtain s where s: "texture_minus_one = Some s" "m_loadedTextures s = 1"
      "m_textureIDs s = (replicate 16 \<lparr>ID = 0, tag = []\<rparr>)[0 := \<lparr>ID = 4294967295, tag = ''metal''\<rparr>]"
    by (simp add: texture_minus_one_def state_of_def CreateGLTexture_def stbi_load_def
        glGenTextures_def tex_write_def metal_file_def SceneManager_new_def Let_def)
  have r: "tex_read s 0 = Inr \<lparr>ID = 4294967295, tag = ''metal''\<rparr>"
    by (simp add: tex_read_def s)
  have "FindTextureID ''metal'' s = Inr (- 1)"
    by (simp add: FindTextureID_def FindTextureID_while.simps [of s _ _ 0] r s
        FindTextureID_while_found)
  moreover have "FindTextureSlot ''metal'' s = Inr 0"
    by (simp add: FindTextureSlot_def FindTextureSlot_while.simps [of s _ _ 0] r s
        FindTextureSlot_while_found)
  ultimately show ?thesis unfolding s(1) by simp
qed

section \<open>CreateGLTexture\<close>

lemma CreateGLTexture_no_file:
  "map_of (files s) filename = None \<Longrightarrow>
   CreateGLTexture filename tg s =
     Inr (False, s\<lparr>trace := trace s @ [StbiSetFlipVerticallyOnLoad True, StbiLoad filename]\<rparr>)"
  by (simp add: CreateGLTexture_def stbi_load_def emit_def Let_def)

lemma CreateGLTexture_bad_channels:
  "map_of (files s) filename = Some im \<Longrightarrow> colorChannels im \<noteq> 3 \<Longrightarrow> colorChannels im \<noteq> 4 \<Longrightarrow>
   \<exists>s'. CreateGLTexture filename tg s = Inr (False, s') \<and>
        m_textureIDs s' = m_textureIDs s \<and> m_loadedTextures s' = m_loadedTextures s \<and>
        m_pShaderManager s' = m_pShaderManager s \<and> m_objectMaterials s' = m_objectMaterials s \<and>
        files s' = files s \<and> uninit_material s' = uninit_material s \<and>
        (\<exists>es. trace s' = trace s @ es)"
  by (simp add: CreateGLTexture_def stbi_load_def Let_def split_beta)

lemma CreateGLTexture_registers:
  assumes "map_of (files s) filename = Some im" "colorChannels im = 3 \<or> colorChannels im = 4"
  shows "\<exists>s1 x. m_textureIDs s1 = m_textureIDs s \<and> m_loadedTextures s1 = m_loadedTextures s \<and>
        m_pShaderManager s1 = m_pShaderManager s \<and> m_objectMaterials s1 = m_objectMaterials s \<and>
        files s1 = files s \<and> uninit_material s1 = uninit_material s \<and>
        (\<exists>es. trace s1 = trace s @ es) \<and>
        CreateGLTexture filename tg s =
          (case tex_write (m_loadedTextures s) \<lparr>ID = x, tag = tg\<rparr> s1 of
             Inl e \<Rightarrow> Inl e
           | Inr s2 \<Rightarrow> Inr (True, s2\<lparr>m_loadedTextures := m_loadedTextures s2 + 1\<rparr>))"
proof -
  let ?s2 = "emit (StbiLoad filename) (emit (StbiSetFlipVerticallyOnLoad True) s)"
  let ?x = "fst (glGenTextures 0 ?s2)"
  let ?s3 = "snd (glGenTextures 0 ?s2)"
  let ?s8 = "emit (GlTexParameteri ''GL_TEXTURE_2D'' ''GL_TEXTURE_MAG_FILTER'' ''GL_LINEAR'')
      (emit (GlTexParameteri ''GL_TEXTURE_2D'' ''GL_TEXTURE_MIN_FILTER'' ''GL_LINEAR'')
      (emit (GlTexParameteri ''GL_TEXTURE_2D'' ''GL_TEXTURE_WRAP_T'' ''GL_REPEAT'')
      (emit (GlTexParameteri ''GL_TEXTURE_2D'' ''GL_TEXTURE_WRAP_S'' ''GL_REPEAT'')
      (emit (GlBindTexture ''GL_TEXTURE_2D'' ?x) ?s3))))"
  let ?img = "if colorChannels im = 3
      then GlTexImage2D ''GL_TEXTURE_2D'' 0 ''GL_RGB8'' (width im) (height im) 0 ''GL_RGB'' ''GL_UNSIGNED_BYTE''
      else GlTexImage2D ''GL_TEXTURE_2D'' 0 ''GL_RGBA8'' (width im) (height im) 0 ''GL_RGBA'' ''GL_UNSIGNED_BYTE''"
  let ?s12 = "emit (GlBindTexture ''GL_TEXTURE_2D'' 0) (emit StbiImageFree
      (emit (GlGenerateMipmap ''GL_TEXTURE_2D'') (emit ?img ?s8)))"
  have "CreateGLTexture filename tg s =
          (case tex_write (m_loadedTextures s) \<lparr>ID = ?x, tag = tg\<rparr> ?s12 of
             Inl e \<Rightarrow> Inl e
           | Inr s2 \<Rightarrow> Inr (True, s2\<lparr>m_loadedTextures := m_loadedTextures s2 + 1\<rparr>))"
    using assms by (auto simp: CreateGLTexture_def stbi_load_def Let_def split_beta)
  moreover have "m_textureIDs ?s12 = m_textureIDs s \<and> m_loadedTextures ?s12 = m_loadedTextures s \<and>
        m_pShaderManager ?s12 = m_pShaderManager s \<and> m_objectMaterials ?s12 = m_objectMaterials s \<and>
        files ?s12 = files s \<and> uninit_material ?s12 = uninit_material s \<and>
        (\<exists>es. trace ?s12 = trace s @ es)"
    by simp
  ultimately show ?thesis by blast
qed

text \<open>
  What \<open>CreateGLTexture\<close> does away from the full registry.  When the file cannot be
  loaded, or loads with a channel count other than 3 and 4, it returns false and leaves
  \<open>m_textureIDs\<close> and \<open>m_loadedTextures\<close> as they were, in every state.  When the file
  loads with 3 or 4 channels and the counter points into the array, it returns true, stores
  one entry with the given tag at index \<open>m_loadedTextures\<close>, leaves every other entry alone
  and increments the counter by one.
\<close>

lemma CreateGLTexture_result:
  "(map_of (files s) filename = None \<or>
      (\<exists>im. map_of (files s) filename = Some im \<and> colorChannels im \<noteq> 3 \<and> colorChannels im \<noteq> 4)
    \<longrightarrow> (\<exists>s'. CreateGLTexture filename tg s = Inr (False, s') \<and>
           m_textureIDs s' = m_textureIDs s \<and> m_loadedTextures s' = m_loadedTextures s)) \<and>
   ((\<exists>im. map_of (files s) filename = Some im \<and> (colorChannels im = 3 \<or> colorChannels im = 4)) \<and>
      0 \<le> m_loadedTextures s \<and> m_loadedTextures s < int (length (m_textureIDs s))
    \<longrightarrow> (\<exists>s' x. CreateGLTexture filename tg s = Inr (True, s') \<and>
           m_textureIDs s' = (m_textureIDs s)[nat (m_loadedTextures s) := \<lparr>ID = x, tag = tg\<rparr>] \<and>
           m_loadedTextures s' = m_loadedTextures s + 1)) \<and>
   (0 \<le> m_loadedTextures s \<and> m_loadedTextures s < int (length (m_textureIDs s))
    \<longrightarrow> (\<exists>b s'. CreateGLTexture filename tg s = Inr (b, s') \<and> (b \<longleftrightarrow> loads s filename)))"
proof (intro conjI impI)
  assume "map_of (files s) filename = None \<or>
      (\<exists>im. map_of (files s) filename = Some im \<and> colorChannels im \<noteq> 3 \<and> colorChannels im \<noteq> 4)"
  then show "\<exists>s'. CreateGLTexture filename tg s = Inr (False, s') \<and>
           m_textureIDs s' = m_textureIDs s \<and> m_loadedTextures s' = m_loadedTextures s"
  proof
    assume "map_of (files s) filename = None"
    then show ?thesis by (simp add: CreateGLTexture_no_file)
  next
    assume "\<exists>im. map_of (files s) filename = Some im \<and> colorChannels im \<noteq> 3 \<and> colorChannels im \<noteq> 4"
    then obtain im where "map_of (files s) filename = Some im" "colorChannels im \<noteq> 3"
        "colorChannels im \<noteq> 4"
      by blast
    from CreateGLTexture_bad_channels [OF this, of tg] show ?thesis by blast
  qed
next
  assume a: "(\<exists>im. map_of (files s) filename = Some im \<and> (colorChannels im = 3 \<or> colorChannels im = 4)) \<and>
      0 \<le> m_loadedTextures s \<and> m_loadedTextures s < int (length (m_textureIDs s))"
  then obtain im where im: "map_of (files s) filename = Some im"
      "colorChannels im = 3 \<or> colorChannels im = 4"
    by blast
  from CreateGLTexture_registers [OF im, of tg] obtain s1 x where
    s1: "m_textureIDs s1 = m_textureIDs s" "m_loadedTextures s1 = m_loadedTextures s" and
    r: "CreateGLTexture filename tg s =
          (case tex_write (m_loadedTextures s) \<lparr>ID = x, tag = tg\<rparr> s1 of
             Inl e \<Rightarrow> Inl e
           | Inr s2 \<Rightarrow> Inr (True, s2\<lparr>m_loadedTextures := m_loadedTextures s2 + 1\<rparr>))"
    by blast
  have w: "tex_write (m_loadedTextures s) \<lparr>ID = x, tag = tg\<rparr> s1 =
      Inr (s1\<lparr>m_textureIDs := (m_textureIDs s)[nat (m_loadedTextures s) := \<lparr>ID = x, tag = tg\<rparr>]\<rparr>)"
    using a s1 by (simp add: tex_write_def)
  show "\<exists>s' x. CreateGLTexture filename tg s = Inr (True, s') \<and>
           m_textureIDs s' = (m_textureIDs s)[nat (m_loadedTextures s) := \<lparr>ID = x, tag = tg\<rparr>] \<and>
           m_loadedTextures s' = m_loadedTextures s + 1"
    by (rule exI [of _ "s1\<lparr>m_textureIDs := (m_textureIDs s)[nat (m_loadedTextures s) := \<lparr>ID = x, tag = tg\<rparr>],
           m_loadedTextures := m_loadedTextures s + 1\<rparr>"], rule exI [of _ x])
      (simp add: r w s1)
next
  assume room: "0 \<le> m_loadedTextures s \<and> m_loadedTextures s < int (length (m_textureIDs s))"
  show "\<exists>b s'. CreateGLTexture filename tg s = Inr (b, s') \<and> (b \<longleftrightarrow> loads s filename)"
  proof (cases "map_of (files s) filename")
    case None
    then have "CreateGLTexture filename tg s =
        Inr (False, s\<lparr>trace := trace s @ [StbiSetFlipVerticallyOnLoad True, StbiLoad filename]\<rparr>)"
      by (rule CreateGLTexture_no_file)
    moreover have "\<not> loads s filename" using None by (simp add: loads_def)
    ultimately show ?thesis by blast
  next
    case (Some im)
    show ?thesis
    proof (cases "colorChannels im = 3 \<or> colorChannels im = 4")
      case False
      then have "colorChannels im \<noteq> 3" "colorChannels im \<noteq> 4" by simp_all
      from CreateGLTexture_bad_channels [OF Some this, of tg]
      obtain s' where "CreateGLTexture filename tg s = Inr (False, s')" by blast
      moreover have "\<not> loads s filename" using False by (simp add: loads_def Some)
      ultimately show ?thesis by blast
    next
      case True
      from CreateGLTexture_registers [OF Some True, of tg] obtain s1 x where
        s1: "m_textureIDs s1 = m_textureIDs s" "m_loadedTextures s1 = m_loadedTextures s" and
        r: "CreateGLTexture filename tg s =
          (case tex_write (m_loadedTextures s) \<lparr>ID = x, tag = tg\<rparr> s1 of
             Inl e \<Rightarrow> Inl e
           | Inr s2 \<Rightarrow> Inr (True, s2\<lparr>m_loadedTextures := m_loadedTextures s2 + 1\<rparr>))"
        by blast
      have "loads s filename" using True by (simp add: loads_def Some)
      moreover have "\<exists>s'. CreateGLTexture filename tg s = Inr (True, s')"
        using room s1 by (simp add: r tex_write_def)
      ultimately show ?thesis by blast
    qed
  qed
qed

lemma CreateGLTexture_result_example:
  "(\<exists>s' x. CreateGLTexture ''textures/metal.jpg'' ''metal''
            (SceneManager_new ShaderManager metal_file [7]) = Inr (True, s') \<and>
          m_textureIDs s' = (replicate 16 \<lparr>ID = 0, tag = []\<rparr>)[0 := \<lparr>ID = x, tag = ''metal''\<rparr>] \<and>
          m_loadedTextures s' = 1) \<and>
   (\<exists>s'. CreateGLTexture ''textures/wood.jpg'' ''wood''
            (SceneManager_new ShaderManager metal_file [7]) = Inr (False, s') \<and>
          m_textureIDs s' = replicate 16 \<lparr>ID = 0, tag = []\<rparr> \<and>
          m_loadedTextures s' = 0)"
proof -
  let ?new = "SceneManager_new ShaderManager metal_file [7]"
  have n: "m_loadedTextures ?new = 0" "m_textureIDs ?new = replicate 16 \<lparr>ID = 0, tag = []\<rparr>"
    by (simp_all add: SceneManager_new_def)
  have metal: "(\<exists>im. map_of (files ?new) ''textures/metal.jpg'' = Some im \<and>
        (colorChannels im = 3 \<or> colorChannels im = 4)) \<and>
      0 \<le> m_loadedTextures ?new \<and> m_loadedTextures ?new < int (length (m_textureIDs ?new))"
    by (simp add: SceneManager_new_def metal_file_def)
  have wood: "map_of (files ?new) ''textures/wood.jpg'' = None \<or>
      (\<exists>im. map_of (files ?new) ''textures/wood.jpg'' = Some im \<and>
         colorChannels im \<noteq> 3 \<and> colorChannels im \<noteq> 4)"
    by (simp add: SceneManager_new_def metal_file_def)
  from CreateGLTexture_result [of ?new "''textures/metal.jpg''" "''metal''"] metal
  have a: "\<exists>s' x. CreateGLTexture ''textures/metal.jpg'' ''metal'' ?new = Inr (True, s') \<and>
      m_textureIDs s' = (m_textureIDs ?new)[nat (m_loadedTextures ?new) := \<lparr>ID = x, tag = ''metal''\<rparr>] \<and>
      m_loadedTextures s' = m_loadedTextures ?new + 1"
    by blast
  from CreateGLTexture_result [of ?new "''textures/wood.jpg''" "''wood''"] wood
  have b: "\<exists>s'. CreateGLTexture ''textures/wood.jpg'' ''wood'' ?new = Inr (False, s') \<and>
      m_textureIDs s' = m_textureIDs ?new \<and> m_loadedTextures s' = m_loadedTextures ?new"
    by blast
  from a b show ?thesis by (simp add: n)
qed

lemma CreateGLTexture_full_registry:
  assumes "map_of (files s) filename = Some im" "colorChannels im = 3 \<or> colorChannels im = 4"
    "m_loadedTextures s = int (length (m_textureIDs s))"
  shows "CreateGLTexture filename tg s = Inl (OutOfBounds (m_loadedTextures s))"
proof -
  from CreateGLTexture_registers [OF assms(1,2), of tg] obtain s1 x where
    s1: "m_textureIDs s1 = m_textureIDs s" "m_loadedTextures s1 = m_loadedTextures s" and
    r: "CreateGLTexture filename tg s =
          (case tex_write (m_loadedTextures s) \<lparr>ID = x, tag = tg\<rparr> s1 of
             Inl e \<Rightarrow> Inl e
           | Inr s2 \<Rightarrow> Inr (True, s2\<lparr>m_loadedTextures := m_loadedTextures s2 + 1\<rparr>))"
    by blast
  show ?thesis using assms(3) s1 by (simp add: r tex_write_def)
qed

text \<open>
  C4.  The code at the failing input.  With all 16 entries of the registry in use and an
  image that loads with 3 channels, \<open>CreateGLTexture\<close> does not add an entry to the
  registry: it reaches \<open>m_textureIDs[m_loadedTextures].ID = textureID\<close> with the counter at
  16 and writes \<open>m_textureIDs[16]\<close>, outside the array.  No test of the counter stands
  before the write: the defect is the one of C1.
\<close>

theorem CreateGLTexture_on_full_registry:
  "CreateGLTexture ''textures/metal.jpg'' ''metal'' full_registry = Inl (OutOfBounds 16)"
proof -
  have f: "map_of (files full_registry) ''textures/metal.jpg'' =
      Some \<lparr>width = 64, height = 64, colorChannels = 3\<rparr>"
    by (simp add: full_registry_def SceneManager_new_def metal_file_def)
  have c: "colorChannels \<lparr>width = 64, height = 64, colorChannels = 3\<rparr> = 3 \<or>
      colorChannels \<lparr>width = 64, height = 64, colorChannels = 3\<rparr> = 4"
    by simp
  have n: "m_loadedTextures full_registry = int (length (m_textureIDs full_registry))"
      "m_loadedTextures full_registry = 16"
    by (simp_all add: full_registry_def)
  from CreateGLTexture_full_registry [OF f c n(1), of "''metal''"] show ?thesis
    by (simp add: n(2))
qed

lemma run_all_append:
  "run_all (fs @ gs) s = (case run_all fs s of Inl e \<Rightarrow> Inl e | Inr s' \<Rightarrow> run_all gs s')"
  by (induction fs arbitrary: s) (auto split: sum.splits)

lemma CreateGLTexture_call_registers:
  assumes "map_of (files s) filename = Some im" "colorChannels im = 3 \<or> colorChannels im = 4"
    "0 \<le> m_loadedTextures s" "m_loadedTextures s < int (length (m_textureIDs s))"
  shows "\<exists>s'. CreateGLTexture_call filename tg s = Inr s' \<and>
           m_loadedTextures s' = m_loadedTextures s + 1 \<and>
           length (m_textureIDs s') = length (m_textureIDs s) \<and> files s' = files s"
proof -
  from CreateGLTexture_registers [OF assms(1,2), of tg] obtain s1 x where
    s1: "m_textureIDs s1 = m_textureIDs s" "m_loadedTextures s1 = m_loadedTextures s"
      "files s1 = files s" and
    r: "CreateGLTexture filename tg s =
          (case tex_write (m_loadedTextures s) \<lparr>ID = x, tag = tg\<rparr> s1 of
             Inl e \<Rightarrow> Inl e
           | Inr s2 \<Rightarrow> Inr (True, s2\<lparr>m_loadedTextures := m_loadedTextures s2 + 1\<rparr>))"
    by blast
  show ?thesis
    using assms(3,4) s1 by (simp add: CreateGLTexture_call_def drop_result_def r tex_write_def)
qed

lemma CreateGLTexture_call_repeated:
  assumes "map_of (files s) filename = Some im" "colorChannels im = 3 \<or> colorChannels im = 4"
    "0 \<le> m_loadedTextures s" "m_loadedTextures s + int k \<le> int (length (m_textureIDs s))"
  shows "\<exists>s'. run_all (replicate k (CreateGLTexture_call filename tg)) s = Inr s' \<and>
           m_loadedTextures s' = m_loadedTextures s + int k \<and>
           length (m_textureIDs s') = length (m_textureIDs s) \<and> files s' = files s"
  using assms
proof (induction k arbitrary: s)
  case 0
  then show ?case by simp
next
  case (Suc k)
  from Suc.prems have "m_loadedTextures s < int (length (m_textureIDs s))" by simp
  from CreateGLTexture_call_registers [OF Suc.prems(1,2,3) this, of tg]
  obtain s1 where s1: "CreateGLTexture_call filename tg s = Inr s1"
      "m_loadedTextures s1 = m_loadedTextures s + 1"
      "length (m_textureIDs s1) = length (m_textureIDs s)" "files s1 = files s"
    by blast
  have "\<exists>s'. run_all (replicate k (CreateGLTexture_call filename tg)) s1 = Inr s' \<and>
           m_loadedTextures s' = m_loadedTextures s1 + int k \<and>
           length (m_textureIDs s') = length (m_textureIDs s1) \<and> files s' = files s1"
    using Suc.prems s1 by (intro Suc.IH) simp_all
  then show ?case using s1 by auto
qed

text \<open>
  C1.  The code at the failing input.  Sixteen successful registrations on a new object
  fill the array: the counter is 16.  The seventeenth call, with an image that loads,
  writes \<open>m_textureIDs[16]\<close>, outside the 16-entry array: no check of the counter stands
  before the write.
\<close>

theorem seventeenth_texture_out_of_bounds:
  "map_sum id m_loadedTextures
     (run_all (replicate 16 (CreateGLTexture_call ''textures/metal.jpg'' ''metal''))
        (SceneManager_new ShaderManager metal_file [])) = Inr 16 \<and>
   run_all (replicate 17 (CreateGLTexture_call ''textures/metal.jpg'' ''metal''))
     (SceneManager_new ShaderManager metal_file []) = Inl (OutOfBounds 16)"
proof -
  let ?new = "SceneManager_new ShaderManager metal_file []"
  let ?call = "CreateGLTexture_call ''textures/metal.jpg'' ''metal''"
  have f: "map_of (files ?new) ''textures/metal.jpg'' =
      Some \<lparr>width = 64, height = 64, colorChannels = 3\<rparr>"
    by (simp add: SceneManager_new_def metal_file_def)
  have c: "colorChannels \<lparr>width = 64, height = 64, colorChannels = 3\<rparr> = 3 \<or>
      colorChannels \<lparr>width = 64, height = 64, colorChannels = 3\<rparr> = 4"
    by simp
  have n: "0 \<le> m_loadedTextures ?new"
      "m_loadedTextures ?new + int 16 \<le> int (length (m_textureIDs ?new))"
    by (simp_all add: SceneManager_new_def)
  from CreateGLTexture_call_repeated [OF f c n, of "''metal''"]
  obtain s where s: "run_all (replicate 16 ?call) ?new = Inr s" "m_loadedTextures s = 16"
      "length (m_textureIDs s) = 16" "files s = files ?new"
    by (auto simp: SceneManager_new_def)
  have "CreateGLTexture ''textures/metal.jpg'' ''metal'' s = Inl (OutOfBounds (m_loadedTextures s))"
  proof (rule CreateGLTexture_full_registry [OF _ c])
    show "map_of (files s) ''textures/metal.jpg'' = Some \<lparr>width = 64, height = 64, colorChannels = 3\<rparr>"
      using f s(4) by simp
    show "m_loadedTextures s = int (length (m_textureIDs s))"
      by (simp add: s)
  qed
  then have last: "?call s = Inl (OutOfBounds 16)"
    by (simp add: CreateGLTexture_call_def drop_result_def s)
  have "replicate 17 ?call = replicate 16 ?call @ [?call]"
    using replicate_add [of 16 1 ?call] by simp
  then have "run_all (replicate 17 ?call) ?new = Inl (OutOfBounds 16)"
    by (simp add: run_all_append s last del: replicate_Suc)
  then show ?thesis by (simp add: s)
qed

section \<open>DestroyGLTextures\<close>

lemma tex_write_Inr:
  "tex_write i t s = Inr s' \<Longrightarrow>
     0 \<le> i \<and> i < int (length (m_textureIDs s)) \<and> s' = s\<lparr>m_textureIDs := (m_textureIDs s)[nat i := t]\<rparr>"
  by (auto simp: tex_write_def split: if_splits)

lemma tex_read_Inr:
  "tex_read s i = Inr t \<Longrightarrow> 0 \<le> i \<and> i < int (length (m_textureIDs s)) \<and> t = m_textureIDs s ! nat i"
  by (auto simp: tex_read_def split: if_splits)

lemma DestroyGLTextures_loop_effect:
  "DestroyGLTextures_loop i s = Inr s' \<Longrightarrow>
     m_loadedTextures s' = m_loadedTextures s \<and>
     map TEXTURE_INFO.tag (m_textureIDs s') = map TEXTURE_INFO.tag (m_textureIDs s) \<and>
     (\<exists>k. trace s' = trace s @ replicate k (GlGenTextures 1))"
proof (induction i s rule: DestroyGLTextures_loop.induct)
  case (1 i s)
  show ?case
  proof (cases "i < m_loadedTextures s")
    case False
    then have "s' = s" using 1(2) by (simp add: DestroyGLTextures_loop.simps [of i s])
    then show ?thesis by simp
  next
    case True
    obtain t where t: "tex_read s i = Inr t"
      using 1(2) True by (simp add: DestroyGLTextures_loop.simps [of i s] split: sum.splits)
    obtain x s1 where g: "glGenTextures (ID t) s = (x, s1)" by (cases "glGenTextures (ID t) s")
    obtain s2 where w: "tex_write i (t\<lparr>ID := x\<rparr>) s1 = Inr s2"
      using 1(2) True t g by (simp add: DestroyGLTextures_loop.simps [of i s] split: sum.splits)
    have rest: "DestroyGLTextures_loop (i + 1) s2 = Inr s'"
      using 1(2) True t g w by (simp add: DestroyGLTextures_loop.simps [of i s])
    have s1: "s1 = snd (glGenTextures (ID t) s)" using g by simp
    have s2: "s2 = s1\<lparr>m_textureIDs := (m_textureIDs s1)[nat i := t\<lparr>ID := x\<rparr>]\<rparr>"
      and b: "0 \<le> i" "i < int (length (m_textureIDs s1))"
      using tex_write_Inr [OF w] by simp_all
    have tt: "t = m_textureIDs s ! nat i" using tex_read_Inr [OF t] by simp
    have ih: "m_loadedTextures s' = m_loadedTextures s2 \<and>
        map TEXTURE_INFO.tag (m_textureIDs s') = map TEXTURE_INFO.tag (m_textureIDs s2) \<and>
        (\<exists>k. trace s' = trace s2 @ replicate k (GlGenTextures 1))"
      using 1(1) [OF True t g [symmetric] refl w rest] .
    have n2: "m_loadedTextures s2 = m_loadedTextures s" by (simp add: s2 s1)
    have tags2: "map TEXTURE_INFO.tag (m_textureIDs s2) = map TEXTURE_INFO.tag (m_textureIDs s)"
      using b by (simp add: s2 s1 tt map_update list_update_same_conv)
    have tr2: "trace s2 = trace s @ [GlGenTextures 1]" by (simp add: s2 s1)
    from ih obtain k where k: "trace s' = trace s2 @ replicate k (GlGenTextures 1)" by blast
    have "trace s' = trace s @ replicate (Suc k) (GlGenTextures 1)"
      by (simp add: k tr2 replicate_append_same)
    then show ?thesis using ih n2 tags2 by metis
  qed
qed

text \<open>
  C2.  The code at the failing input.  \<open>DestroyGLTextures\<close> on the state with texture
  object 1 loaded makes one call, \<open>glGenTextures(1, &m_textureIDs[0].ID)\<close>: the trace
  holds no \<open>GlDeleteTextures\<close>, object 1 is not freed, and the registry entry now holds
  the fresh name 2.  (By \<open>DestroyGLTextures_loop_effect\<close> the events added are
  \<open>GlGenTextures\<close> calls in every state.)
\<close>

theorem DestroyGLTextures_generates_instead_of_deleting:
  "DestroyGLTextures loaded_metal =
     Inr (loaded_metal
            \<lparr>m_textureIDs := (replicate 16 \<lparr>ID = 0, tag = []\<rparr>)[0 := \<lparr>ID = 2, tag = ''metal''\<rparr>],
             gl_names := [],
             trace := [GlGenTextures 1]\<rparr>)"
proof -
  have r: "tex_read loaded_metal 0 = Inr \<lparr>ID = 1, tag = ''metal''\<rparr>"
    by (simp add: tex_read_def loaded_metal_def SceneManager_new_def)
  have n: "m_loadedTextures loaded_metal = 1"
    by (simp add: loaded_metal_def)
  have g: "glGenTextures 1 loaded_metal =
      (2, loaded_metal\<lparr>gl_names := [], trace := [GlGenTextures 1]\<rparr>)"
    by (simp add: glGenTextures_def emit_def loaded_metal_def SceneManager_new_def)
  have w: "tex_write 0 \<lparr>ID = 2, tag = ''metal''\<rparr>
        (loaded_metal\<lparr>gl_names := [], trace := [GlGenTextures 1]\<rparr>) =
      Inr (loaded_metal
            \<lparr>m_textureIDs := (replicate 16 \<lparr>ID = 0, tag = []\<rparr>)[0 := \<lparr>ID = 2, tag = ''metal''\<rparr>],
             gl_names := [],
             trace := [GlGenTextures 1]\<rparr>)"
    by (simp add: tex_write_def loaded_metal_def SceneManager_new_def)
  have stop: "DestroyGLTextures_loop 1 s = Inr s" if "m_loadedTextures s = 1" for s
    using that by (simp add: DestroyGLTextures_loop.simps [of 1 s])
  show ?thesis
    unfolding DestroyGLTextures_def
    by (subst DestroyGLTextures_loop.simps) (simp add: r n g w stop)
qed

section \<open>Materials and lights of the scene\<close>

text \<open>
  The constants of the scene.  \<open>DefineObjectMaterials\<close> appends, in every state, the same
  five materials (blackmetal, carbonfiber, metal, greyplastic, clay, with the component
  values below) and changes nothing else.  \<open>SetupSceneLights\<close>, when the shader manager is
  not null, makes the same 25 calls in every state: position, ambient, diffuse and
  specular colour, focal strength and specular intensity of the light sources 0 to 3,
  then \<open>bUseLighting = true\<close>.
\<close>

lemma scene_constants:
  "DefineObjectMaterials s =
     s\<lparr>m_objectMaterials := m_objectMaterials s @
         [
          \<lparr>ambientColor = Vec3 0.5 0.5 0.5, ambientStrength = 0.5,
           diffuseColor = Vec3 0.2 0.2 0.2, specularColor = Vec3 0.5 0.5 0.5,
           shininess = 128, tag = ''blackmetal''\<rparr>,
          \<lparr>ambientColor = Vec3 0.5 0.5 0.5, ambientStrength = 0.4,
           diffuseColor = Vec3 0.4 0.4 0.4, specularColor = Vec3 0.8 0.8 0.8,
           shininess = 0.5, tag = ''carbonfiber''\<rparr>,
          \<lparr>ambientColor = Vec3 0.8 0.8 0.8, ambientStrength = 0.8,
           diffuseColor = Vec3 0.8 0.8 0.8, specularColor = Vec3 1 1 1,
           shininess = 100, tag = ''metal''\<rparr>,
          \<lparr>ambientColor = Vec3 1 1 1, ambientStrength = 0.8,
           diffuseColor = Vec3 1 1 1, specularColor = Vec3 1 1 1,
           shininess = 65, tag = ''greyplastic''\<rparr>,
          \<lparr>ambientColor = Vec3 0.2 0.2 0.3, ambientStrength = 0.3,
           diffuseColor = Vec3 0.4 0.4 0.5, specularColor = Vec3 0.2 0.2 0.4,
           shininess = 0.5, tag = ''clay''\<rparr>
         ]\<rparr> \<and>
   (m_pShaderManager s \<noteq> NULL \<longrightarrow>
      SetupSceneLights s =
        Inr (s\<lparr>trace := trace s @
           [
            SetVec3Value ''lightSources[0].position'' (Vec3 5 5 5),
            SetVec3Value ''lightSources[0].ambientColor'' (Vec3 0.01 0.01 0.01),
            SetVec3Value ''lightSources[0].diffuseColor'' (Vec3 1 0.4 0.4),
            SetVec3Value ''lightSources[0].specularColor'' (Vec3 0 0 0),
            SetFloatValue ''lightSources[0].focalStrength'' 32,
            SetFloatValue ''lightSources[0].specularIntensity'' 0.01,
            SetVec3Value ''lightSources[1].position'' (Vec3 (- 3) 5 5),
            SetVec3Value ''lightSources[1].ambientColor'' (Vec3 1 0.01 0.01),
            SetVec3Value ''lightSources[1].diffuseColor'' (Vec3 0.4 0.4 0.4),
            SetVec3Value ''lightSources[1].specularColor'' (Vec3 0 0 0),
            SetFloatValue ''lightSources[1].focalStrength'' 32,
            SetFloatValue ''lightSources[1].specularIntensity'' 0.01,
            SetVec3Value ''lightSources[2].position'' (Vec3 1.6 5 1),
            SetVec3Value ''lightSources[2].ambientColor'' (Vec3 0.01 0.01 0.01),
            SetVec3Value ''lightSources[2].diffuseColor'' (Vec3 0.3 0.3 0.3),
            SetVec3Value ''lightSources[2].specularColor'' (Vec3 0.3 0.3 0.3),
            SetFloatValue ''lightSources[2].focalStrength'' 12,
            SetFloatValue ''lightSources[2].specularIntensity'' 0.1,
            SetVec3Value ''lightSources[3].position'' (Vec3 4 5 (- 5)),
            SetVec3Value ''lightSources[3].ambientColor'' (Vec3 0.01 0.01 0.01),
            SetVec3Value ''lightSources[3].diffuseColor'' (Vec3 0.3 0.3 0.3),
            SetVec3Value ''lightSources[3].specularColor'' (Vec3 0.3 0.3 0.3),
            SetFloatValue ''lightSources[3].focalStrength'' 12,
            SetFloatValue ''lightSources[3].specularIntensity'' 0.1,
            SetBoolValue ''bUseLighting'' True
           ]\<rparr>))"
proof
  show "DefineObjectMaterials s =
     s\<lparr>m_objectMaterials := m_objectMaterials s @
         [
          \<lparr>ambientColor = Vec3 0.5 0.5 0.5, ambientStrength = 0.5,
           diffuseColor = Vec3 0.2 0.2 0.2, specularColor = Vec3 0.5 0.5 0.5,
           shininess = 128, tag = ''blackmetal''\<rparr>,
          \<lparr>ambientColor = Vec3 0.5 0.5 0.5, ambientStrength = 0.4,
           diffuseColor = Vec3 0.4 0.4 0.4, specularColor = Vec3 0.8 0.8 0.8,
           shininess = 0.5, tag = ''carbonfiber''\<rparr>,
          \<lparr>ambientColor = Vec3 0.8 0.8 0.8, ambientStrength = 0.8,
           diffuseColor = Vec3 0.8 0.8 0.8, specularColor = Vec3 1 1 1,
           shininess = 100, tag = ''metal''\<rparr>,
          \<lparr>ambientColor = Vec3 1 1 1, ambientStrength = 0.8,
           diffuseColor = Vec3 1 1 1, specularColor = Vec3 1 1 1,
           shininess = 65, tag = ''greyplastic''\<rparr>,
          \<lparr>ambientColor = Vec3 0.2 0.2 0.3, ambientStrength = 0.3,
           diffuseColor = Vec3 0.4 0.4 0.5, specularColor = Vec3 0.2 0.2 0.4,
           shininess = 0.5, tag = ''clay''\<rparr>
         ]\<rparr>"
    by (simp add: DefineObjectMaterials_def push_back_def Let_def)
  show "m_pShaderManager s \<noteq> NULL \<longrightarrow>
      SetupSceneLights s =
        Inr (s\<lparr>trace := trace s @
           [
            SetVec3Value ''lightSources[0].position'' (Vec3 5 5 5),
            SetVec3Value ''lightSources[0].ambientColor'' (Vec3 0.01 0.01 0.01),
            SetVec3Value ''lightSources[0].diffuseColor'' (Vec3 1 0.4 0.4),
            SetVec3Value ''lightSources[0].specularColor'' (Vec3 0 0 0),
            SetFloatValue ''lightSources[0].focalStrength'' 32,
            SetFloatValue ''lightSources[0].specularIntensity'' 0.01,
            SetVec3Value ''lightSources[1].position'' (Vec3 (- 3) 5 5),
            SetVec3Value ''lightSources[1].ambientColor'' (Vec3 1 0.01 0.01),
            SetVec3Value ''lightSources[1].diffuseColor'' (Vec3 0.4 0.4 0.4),
            SetVec3Value ''lightSources[1].specularColor'' (Vec3 0 0 0),
            SetFloatValue ''lightSources[1].focalStrength'' 32,
            SetFloatValue ''lightSources[1].specularIntensity'' 0.01,
            SetVec3Value ''lightSources[2].position'' (Vec3 1.6 5 1),
            SetVec3Value ''lightSources[2].ambientColor'' (Vec3 0.01 0.01 0.01),
            SetVec3Value ''lightSources[2].diffuseColor'' (Vec3 0.3 0.3 0.3),
            SetVec3Value ''lightSources[2].specularColor'' (Vec3 0.3 0.3 0.3),
            SetFloatValue ''lightSources[2].focalStrength'' 12,
            SetFloatValue ''lightSources[2].specularIntensity'' 0.1,
            SetVec3Value ''lightSources[3].position'' (Vec3 4 5 (- 5)),
            SetVec3Value ''lightSources[3].ambientColor'' (Vec3 0.01 0.01 0.01),
            SetVec3Value ''lightSources[3].diffuseColor'' (Vec3 0.3 0.3 0.3),
            SetVec3Value ''lightSources[3].specularColor'' (Vec3 0.3 0.3 0.3),
            SetFloatValue ''lightSources[3].focalStrength'' 12,
            SetFloatValue ''lightSources[3].specularIntensity'' 0.1,
            SetBoolValue ''bUseLighting'' True
           ]\<rparr>)"
    by (simp add: SetupSceneLights_def shader_call_def emit_def)
qed

lemma scene_constants_example:
  "m_pShaderManager (SceneManager_new ShaderManager [] []) \<noteq> NULL \<and>
   SetupSceneLights (SceneManager_new ShaderManager [] []) =
        Inr ((SceneManager_new ShaderManager [] [])\<lparr>trace :=
           [
            SetVec3Value ''lightSources[0].position'' (Vec3 5 5 5),
            SetVec3Value ''lightSources[0].ambientColor'' (Vec3 0.01 0.01 0.01),
            SetVec3Value ''lightSources[0].diffuseColor'' (Vec3 1 0.4 0.4),
            SetVec3Value ''lightSources[0].specularColor'' (Vec3 0 0 0),
            SetFloatValue ''lightSources[0].focalStrength'' 32,
            SetFloatValue ''lightSources[0].specularIntensity'' 0.01,
            SetVec3Value ''lightSources[1].position'' (Vec3 (- 3) 5 5),
            SetVec3Value ''lightSources[1].ambientColor'' (Vec3 1 0.01 0.01),
            SetVec3Value ''lightSources[1].diffuseColor'' (Vec3 0.4 0.4 0.4),
            SetVec3Value ''lightSources[1].specularColor'' (Vec3 0 0 0),
            SetFloatValue ''lightSources[1].focalStrength'' 32,
            SetFloatValue ''lightSources[1].specularIntensity'' 0.01,
            SetVec3Value ''lightSources[2].position'' (Vec3 1.6 5 1),
            SetVec3Value ''lightSources[2].ambientColor'' (Vec3 0.01 0.01 0.01),
            SetVec3Value ''lightSources[2].diffuseColor'' (Vec3 0.3 0.3 0.3),
            SetVec3Value ''lightSources[2].specularColor'' (Vec3 0.3 0.3 0.3),
            SetFloatValue ''lightSources[2].focalStrength'' 12,
            SetFloatValue ''lightSources[2].specularIntensity'' 0.1,
            SetVec3Value ''lightSources[3].position'' (Vec3 4 5 (- 5)),
            SetVec3Value ''lightSources[3].ambientColor'' (Vec3 0.01 0.01 0.01),
            SetVec3Value ''lightSources[3].diffuseColor'' (Vec3 0.3 0.3 0.3),
            SetVec3Value ''lightSources[3].specularColor'' (Vec3 0.3 0.3 0.3),
            SetFloatValue ''lightSources[3].focalStrength'' 12,
            SetFloatValue ''lightSources[3].specularIntensity'' 0.1,
            SetBoolValue ''bUseLighting'' True
           ]\<rparr>)"
proof -
  have h: "m_pShaderManager (SceneManager_new ShaderManager [] []) \<noteq> NULL"
    by (simp add: SceneManager_new_def)
  have t: "trace (SceneManager_new ShaderManager [] []) = []"
    by (simp add: SceneManager_new_def)
  from scene_constants [of "SceneManager_new ShaderManager [] []"] h
  show ?thesis by (simp add: t)
qed

text \<open>
  C8.  The code at the failing input.  On an object constructed with a null shader manager
  \<open>SetupSceneLights\<close> sets no light-source uniform and does not enable \<open>bUseLighting\<close>: its
  first statement, \<open>m_pShaderManager->setVec3Value("lightSources[0].position", ...)\<close>, calls
  through the null pointer.  The test \<open>NULL != m_pShaderManager\<close> that
  \<open>SetTransformations\<close>, \<open>SetShaderColor\<close>, \<open>SetShaderTexture\<close> and \<open>SetTextureUVScale\<close>
  make is missing here.
\<close>

theorem SetupSceneLights_null_dereference:
  "SetupSceneLights (SceneManager_new NULL [] []) = Inl NullDereference"
  by (simp add: SetupSceneLights_def shader_call_def SceneManager_new_def)

section \<open>RenderScene\<close>

lemma draws_of_simps [simp]:
  "draws_of [] = []"
  "draws_of (e # es) = (if is_draw e then e # draws_of es else draws_of es)"
  "draws_of (es @ es') = draws_of es @ draws_of es'"
  by (simp_all add: draws_of_def)

lemma safe_trace [simp]: "safe (s\<lparr>trace := t\<rparr>) = safe s"
  by (simp add: safe_def)

lemma shader_call_Inr:
  "shader_call e s = Inr s' \<longleftrightarrow> m_pShaderManager s \<noteq> NULL \<and> s' = s\<lparr>trace := trace s @ [e]\<rparr>"
  by (auto simp: shader_call_def emit_def)

lemma adds_shader_call: "\<not> is_draw e \<Longrightarrow> adds (shader_call e) []"
  by (auto simp: adds_def shader_call_Inr)

lemma adds_mesh_call: "is_draw e \<Longrightarrow> adds (mesh_call e) [e]"
  by (auto simp: adds_def mesh_call_def emit_def)

lemma adds_Nil: "adds (run_all []) []"
  by (auto simp: adds_def intro: exI [of _ "[]"])

lemma adds_Cons:
  assumes "adds f ds" "adds (run_all fs) dss"
  shows "adds (run_all (f # fs)) (ds @ dss)"
  unfolding adds_def
proof (intro allI impI)
  fix s s'
  assume r: "run_all (f # fs) s = Inr s'"
  then obtain s1 where s1: "f s = Inr s1" "run_all fs s1 = Inr s'"
    by (auto split: sum.splits)
  from assms(1) s1(1) obtain es where es: "s1 = s\<lparr>trace := trace s @ es\<rparr>" "draws_of es = ds"
    by (auto simp: adds_def)
  from assms(2) s1(2) obtain es' where es': "s' = s1\<lparr>trace := trace s1 @ es'\<rparr>" "draws_of es' = dss"
    by (auto simp: adds_def)
  have "s' = s\<lparr>trace := trace s @ (es @ es')\<rparr>" by (simp add: es es')
  moreover have "draws_of (es @ es') = ds @ dss" by (simp add: es es')
  ultimately show "\<exists>es. s' = s\<lparr>trace := trace s @ es\<rparr> \<and> draws_of es = ds @ dss" by blast
qed

lemma adds_quiet_list: "(\<forall>f \<in> set fs. adds f []) \<Longrightarrow> adds (run_all fs) []"
proof (induction fs)
  case Nil
  show ?case by (rule adds_Nil)
next
  case (Cons f fs)
  then have "adds f []" "adds (run_all fs) []" by simp_all
  from adds_Cons [OF this] show ?case unfolding append_Nil .
qed

lemma adds_append:
  assumes "adds (run_all fs) ds" "adds (run_all gs) dss"
  shows "adds (run_all (fs @ gs)) (ds @ dss)"
  unfolding adds_def
proof (intro allI impI)
  fix s s'
  assume r: "run_all (fs @ gs) s = Inr s'"
  then obtain s1 where s1: "run_all fs s = Inr s1" "run_all gs s1 = Inr s'"
    by (auto simp: run_all_append split: sum.splits)
  from assms(1) s1(1) obtain es where es: "s1 = s\<lparr>trace := trace s @ es\<rparr>" "draws_of es = ds"
    by (auto simp: adds_def)
  from assms(2) s1(2) obtain es' where es': "s' = s1\<lparr>trace := trace s1 @ es'\<rparr>" "draws_of es' = dss"
    by (auto simp: adds_def)
  have "s' = s\<lparr>trace := trace s @ (es @ es')\<rparr>" by (simp add: es es')
  moreover have "draws_of (es @ es') = ds @ dss" by (simp add: es es')
  ultimately show "\<exists>es. s' = s\<lparr>trace := trace s @ es\<rparr> \<and> draws_of es = ds @ dss" by blast
qed

lemma adds_SetTransformations: "adds (SetTransformations sc x y z p) []"
proof -
  have "SetTransformations sc x y z p s = Inr s' \<Longrightarrow>
      \<exists>es. s' = s\<lparr>trace := trace s @ es\<rparr> \<and> draws_of es = []" for s s'
    by (cases "m_pShaderManager s = NULL")
      (auto simp: SetTransformations_def Let_def shader_call_Inr intro: exI [of _ "[]"])
  then show ?thesis unfolding adds_def by blast
qed

lemma adds_SetShaderColor: "adds (SetShaderColor r g b a) []"
proof -
  have q: "adds (run_all [shader_call (SetIntValue g_UseTextureName 0),
      shader_call (SetVec4Value g_ColorValueName (Vec4 r g b a))]) []"
    by (rule adds_quiet_list) (simp add: adds_shader_call)
  have "SetShaderColor r g b a s = Inr s' \<Longrightarrow>
      \<exists>es. s' = s\<lparr>trace := trace s @ es\<rparr> \<and> draws_of es = []" for s s'
  proof (cases "m_pShaderManager s = NULL")
    case True
    assume "SetShaderColor r g b a s = Inr s'"
    then have "s' = s\<lparr>trace := trace s @ []\<rparr>" using True by (simp add: SetShaderColor_def Let_def)
    then show ?thesis by (intro exI [of _ "[]"]) simp
  next
    case False
    assume "SetShaderColor r g b a s = Inr s'"
    then have "run_all [shader_call (SetIntValue g_UseTextureName 0),
      shader_call (SetVec4Value g_ColorValueName (Vec4 r g b a))] s = Inr s'"
      using False by (simp add: SetShaderColor_def Let_def del: run_all.simps)
    with q show ?thesis unfolding adds_def by blast
  qed
  then show ?thesis unfolding adds_def by blast
qed

lemma adds_SetTextureUVScale: "adds (SetTextureUVScale u v) []"
proof -
  have "SetTextureUVScale u v s = Inr s' \<Longrightarrow>
      \<exists>es. s' = s\<lparr>trace := trace s @ es\<rparr> \<and> draws_of es = []" for s s'
    by (cases "m_pShaderManager s = NULL")
      (auto simp: SetTextureUVScale_def shader_call_Inr intro: exI [of _ "[]"])
  then show ?thesis unfolding adds_def by blast
qed

lemma adds_SetShaderTexture: "adds (SetShaderTexture tg) []"
proof -
  have "SetShaderTexture tg s = Inr s' \<Longrightarrow>
      \<exists>es. s' = s\<lparr>trace := trace s @ es\<rparr> \<and> draws_of es = []" for s s'
  proof (cases "m_pShaderManager s = NULL")
    case True
    assume "SetShaderTexture tg s = Inr s'"
    then have "s' = s\<lparr>trace := trace s @ []\<rparr>" using True by (simp add: SetShaderTexture_def)
    then show ?thesis by (intro exI [of _ "[]"]) simp
  next
    case False
    let ?s1 = "s\<lparr>trace := trace s @ [SetIntValue g_UseTextureName 1]\<rparr>"
    assume a: "SetShaderTexture tg s = Inr s'"
    have c1: "shader_call (SetIntValue g_UseTextureName 1) s = Inr ?s1"
      using False by (simp add: shader_call_Inr)
    from a obtain r where r: "FindTextureSlot tg ?s1 = Inr r"
      and c2: "shader_call (SetSampler2DValue g_TextureValueName r) ?s1 = Inr s'"
      using False by (auto simp: SetShaderTexture_def c1 split: sum.splits)
    from c2 have "s' = s\<lparr>trace := trace s @
        [SetIntValue g_UseTextureName 1, SetSampler2DValue g_TextureValueName r]\<rparr>"
      by (simp add: shader_call_Inr)
    then show ?thesis
      by (intro exI [of _ "[SetIntValue g_UseTextureName 1, SetSampler2DValue g_TextureValueName r]"])
        simp
  qed
  then show ?thesis unfolding adds_def by blast
qed

lemma adds_SetShaderMaterial: "adds (SetShaderMaterial tg) []"
proof -
  have "SetShaderMaterial tg s = Inr s' \<Longrightarrow>
      \<exists>es. s' = s\<lparr>trace := trace s @ es\<rparr> \<and> draws_of es = []" for s s'
  proof (cases "length (m_objectMaterials s) > 0")
    case False
    assume "SetShaderMaterial tg s = Inr s'"
    then have "s' = s\<lparr>trace := trace s @ []\<rparr>" using False by (simp add: SetShaderMaterial_def)
    then show ?thesis by (intro exI [of _ "[]"]) simp
  next
    case True
    obtain b m where f: "FindMaterial tg ((uninit_material s)\<lparr>OBJECT_MATERIAL.tag := []\<rparr>) s = (b, m)"
      by (cases "FindMaterial tg ((uninit_material s)\<lparr>OBJECT_MATERIAL.tag := []\<rparr>) s")
    let ?calls = "[shader_call (SetVec3Value ''material.ambientColor'' (ambientColor m)),
                 shader_call (SetFloatValue ''material.ambientStrength'' (ambientStrength m)),
                 shader_call (SetVec3Value ''material.diffuseColor'' (diffuseColor m)),
                 shader_call (SetVec3Value ''material.specularColor'' (specularColor m)),
                 shader_call (SetFloatValue ''material.shininess'' (shininess m))]"
    have q: "adds (run_all ?calls) []"
      by (rule adds_quiet_list) (simp add: adds_shader_call)
    assume a: "SetShaderMaterial tg s = Inr s'"
    show ?thesis
    proof (cases b)
      case False
      then have "s' = s\<lparr>trace := trace s @ []\<rparr>"
        using a True f by (simp add: SetShaderMaterial_def)
      then show ?thesis by (intro exI [of _ "[]"]) simp
    next
      case b: True
      then have "run_all ?calls s = Inr s'"
        using a True f by (simp add: SetShaderMaterial_def del: run_all.simps)
      with q show ?thesis unfolding adds_def by blast
    qed
  qed
  then show ?thesis unfolding adds_def by blast
qed

lemma is_draw_draw_event [simp]: "is_draw (draw_event m)"
  by (cases m) simp_all

lemma adds_configure_and_draw:
  "adds (run_all (configure_and_draw obj)) [draw_event (object_mesh obj)]"
proof -
  obtain scaleXYZ xDeg yDeg zDeg positionXYZ r g b a u v textureTag materialTag m where
    obj: "obj = SceneObject scaleXYZ xDeg yDeg zDeg positionXYZ (Vec4 r g b a) (Vec2 u v)
       textureTag materialTag m"
    by (metis scene_object.exhaust vec4.exhaust vec2.exhaust)
  have q: "adds (run_all [SetTransformations scaleXYZ xDeg yDeg zDeg positionXYZ,
      SetShaderColor r g b a, SetTextureUVScale u v, SetShaderTexture textureTag,
      SetShaderMaterial materialTag]) []"
    by (rule adds_quiet_list)
      (simp add: adds_SetTransformations adds_SetShaderColor adds_SetTextureUVScale
        adds_SetShaderTexture adds_SetShaderMaterial)
  have d: "adds (run_all [mesh_call (draw_event m)]) ([draw_event m] @ [])"
    by (intro adds_Cons adds_mesh_call adds_Nil) simp
  from adds_append [OF q d] show ?thesis by (simp add: obj del: run_all.simps)
qed

lemma adds_objects:
  "adds (run_all (concat (map configure_and_draw objs))) (map (\<lambda>obj. draw_event (object_mesh obj)) objs)"
proof (induction objs)
  case Nil
  show ?case using adds_Nil by (simp del: run_all.simps)
next
  case (Cons obj objs)
  from adds_append [OF adds_configure_and_draw [of obj] Cons.IH]
  show ?case by (simp del: run_all.simps)
qed

lemma RenderScene_objects:
  "RenderScene s = run_all (concat (map configure_and_draw scene_objects)) s"
  by (simp add: RenderScene_def scene_objects_def del: run_all.simps)

lemma FindTextureSlot_returns:
  assumes "m_loadedTextures s \<le> int (length (m_textureIDs s))"
  shows "\<exists>r. FindTextureSlot tg s = Inr r"
  using FindTextureSlot_while_scan [of 0 s False tg "- 1" "- 1"] assms
  unfolding FindTextureSlot_def by auto

lemma tex_read_trace [simp]: "tex_read (s\<lparr>trace := t\<rparr>) i = tex_read s i"
  by (simp add: tex_read_def)

lemma FindTextureSlot_while_trace:
  "FindTextureSlot_while (s\<lparr>trace := t\<rparr>) tg slot index bFound =
   FindTextureSlot_while s tg slot index bFound"
proof (induction s tg slot index bFound rule: FindTextureSlot_while.induct)
  case (1 s tg slot index bFound)
  note L = FindTextureSlot_while.simps [of "s\<lparr>trace := t\<rparr>" tg slot index]
  note R = FindTextureSlot_while.simps [of s tg slot index]
  consider (stop) "\<not> index < m_loadedTextures s" | (found) "bFound"
    | (go) "index < m_loadedTextures s \<and> bFound = False"
    by blast
  then show ?case
  proof cases
    case stop
    then show ?thesis by (simp add: L R)
  next
    case found
    then show ?thesis by (simp add: FindTextureSlot_while_found)
  next
    case go
    show ?thesis
    proof (cases "tex_read s index")
      case (Inl e)
      then show ?thesis using go by (simp add: L R)
    next
      case (Inr x)
      show ?thesis
      proof (cases "TEXTURE_INFO.tag x = tg")
        case True
        from 1(1) [OF go Inr True] show ?thesis using go Inr True by (simp add: L R)
      next
        case False
        from 1(2) [OF go Inr False] show ?thesis using go Inr False by (simp add: L R)
      qed
    qed
  qed
qed

lemma FindTextureSlot_trace [simp]: "FindTextureSlot tg (s\<lparr>trace := t\<rparr>) = FindTextureSlot tg s"
  by (simp add: FindTextureSlot_def FindTextureSlot_while_trace)

lemma FindMaterial_trace [simp]:
  "FindMaterial tg material (s\<lparr>trace := t\<rparr>) = FindMaterial tg material s"
  by (simp add: FindMaterial_def)

lemma configuration_events_trace [simp]:
  "configuration_events (s\<lparr>trace := t\<rparr>) obj = configuration_events s obj"
  by (cases obj) (simp add: texture_slot_def material_events_def)

lemma SetShaderTexture_events:
  assumes "safe s"
  shows "SetShaderTexture tg s =
     Inr (s\<lparr>trace := trace s @
            [SetIntValue ''bUseTexture'' 1, SetSampler2DValue ''objectTexture'' (texture_slot s tg)]\<rparr>)"
proof -
  from assms FindTextureSlot_returns [of s tg] obtain r where r: "FindTextureSlot tg s = Inr r"
    by (auto simp: safe_def)
  show ?thesis
    using assms
    by (simp add: SetShaderTexture_def shader_call_def emit_def safe_def r texture_slot_def
        g_UseTextureName_def g_TextureValueName_def eq_commute [of NULL])
qed

lemma SetShaderMaterial_events:
  assumes "safe s"
  shows "SetShaderMaterial tg s = Inr (s\<lparr>trace := trace s @ material_events s tg\<rparr>)"
proof (cases "m_objectMaterials s = []")
  case True
  then show ?thesis by (simp add: SetShaderMaterial_def material_events_def)
next
  case False
  then have "fst (FindMaterial tg ((uninit_material s)\<lparr>OBJECT_MATERIAL.tag := []\<rparr>) s) = True"
    by (simp add: FindMaterial_def)
  then show ?thesis
    using assms False
    by (simp add: SetShaderMaterial_def material_events_def shader_call_def emit_def safe_def
        split_beta Let_def)
qed

lemma configure_and_draw_events:
  assumes "safe s"
  shows "run_all (configure_and_draw obj) s =
     Inr (s\<lparr>trace := trace s @ configuration_events s obj @ [draw_event (object_mesh obj)]\<rparr>)"
proof -
  obtain scaleXYZ xDeg yDeg zDeg positionXYZ r g b a u v textureTag materialTag m where
    obj: "obj = SceneObject scaleXYZ xDeg yDeg zDeg positionXYZ (Vec4 r g b a) (Vec2 u v)
       textureTag materialTag m"
    by (metis scene_object.exhaust vec4.exhaust vec2.exhaust)
  have n: "m_pShaderManager s \<noteq> NULL" using assms by (simp add: safe_def)
  let ?s1 = "s\<lparr>trace := trace s @
      [SetMat4Value ''model'' (spec_model_matrix scaleXYZ xDeg yDeg zDeg positionXYZ)]\<rparr>"
  let ?s2 = "?s1\<lparr>trace := trace ?s1 @
      [SetIntValue ''bUseTexture'' 0, SetVec4Value ''objectColor'' (Vec4 r g b a)]\<rparr>"
  let ?s3 = "?s2\<lparr>trace := trace ?s2 @ [SetVec2Value ''UVscale'' (Vec2 u v)]\<rparr>"
  let ?s4 = "?s3\<lparr>trace := trace ?s3 @
      [SetIntValue ''bUseTexture'' 1, SetSampler2DValue ''objectTexture'' (texture_slot ?s3 textureTag)]\<rparr>"
  let ?s5 = "?s4\<lparr>trace := trace ?s4 @ material_events ?s4 materialTag\<rparr>"
  have c1: "SetTransformations scaleXYZ xDeg yDeg zDeg positionXYZ s = Inr ?s1"
    using n by (simp add: SetTransformations_def spec_model_matrix_def shader_call_def emit_def
        g_ModelName_def Let_def)
  have c2: "SetShaderColor r g b a ?s1 = Inr ?s2"
    using n by (simp add: SetShaderColor_def shader_call_def emit_def g_UseTextureName_def
        g_ColorValueName_def Let_def)
  have c3: "SetTextureUVScale u v ?s2 = Inr ?s3"
    using n by (simp add: SetTextureUVScale_def shader_call_def emit_def)
  have "safe ?s3" using assms by simp
  then have c4: "SetShaderTexture textureTag ?s3 = Inr ?s4" by (rule SetShaderTexture_events)
  have "safe ?s4" using assms by simp
  then have c5: "SetShaderMaterial materialTag ?s4 = Inr ?s5" by (rule SetShaderMaterial_events)
  have c6: "mesh_call (draw_event m) ?s5 = Inr (?s5\<lparr>trace := trace ?s5 @ [draw_event m]\<rparr>)"
    by (simp add: mesh_call_def emit_def)
  have "run_all (configure_and_draw obj) s = Inr (?s5\<lparr>trace := trace ?s5 @ [draw_event m]\<rparr>)"
    unfolding obj configure_and_draw.simps run_all.simps c1 c2 c3 c4 c5 c6 sum.case ..
  also have "?s5\<lparr>trace := trace ?s5 @ [draw_event m]\<rparr> =
      s\<lparr>trace := trace s @ configuration_events s obj @ [draw_event (object_mesh obj)]\<rparr>"
    by (simp add: obj texture_slot_def material_events_def)
  finally show ?thesis .
qed

lemma objects_events:
  assumes "safe s"
  shows "run_all (concat (map configure_and_draw objs)) s =
     Inr (s\<lparr>trace := trace s @
            concat (map (\<lambda>obj. configuration_events s obj @ [draw_event (object_mesh obj)]) objs)\<rparr>)"
  using assms
proof (induction objs arbitrary: s)
  case Nil
  show ?case by simp
next
  case (Cons obj objs)
  let ?s1 = "s\<lparr>trace := trace s @ configuration_events s obj @ [draw_event (object_mesh obj)]\<rparr>"
  have s1: "safe ?s1" using Cons.prems by simp
  have "run_all (concat (map configure_and_draw (obj # objs))) s =
      run_all (concat (map configure_and_draw objs)) ?s1"
    by (simp add: run_all_append configure_and_draw_events [OF Cons.prems] del: run_all.simps)
  also note Cons.IH [OF s1]
  also have "?s1\<lparr>trace := trace ?s1 @
            concat (map (\<lambda>obj. configuration_events ?s1 obj @ [draw_event (object_mesh obj)]) objs)\<rparr> =
      s\<lparr>trace := trace s @
            concat (map (\<lambda>obj. configuration_events s obj @ [draw_event (object_mesh obj)]) (obj # objs))\<rparr>"
    by simp
  finally show ?case .
qed

text \<open>
  The draw order.  \<open>RenderScene\<close> is, in every state, the same twelve blocks in the same
  order: each block calls \<open>SetTransformations\<close>, \<open>SetShaderColor\<close>,
  \<open>SetTextureUVScale\<close>, \<open>SetShaderTexture\<close> and \<open>SetShaderMaterial\<close> with fixed arguments
  and then draws one mesh, the meshes being plane, plane, cylinder (five times), sphere,
  cylinder, cylinder, torus, torus.  Every run that returns has changed nothing but the
  trace and has issued exactly these twelve draws in this order.  When the shader manager
  is not null and \<open>m_loadedTextures\<close> does not exceed the array, the run returns and its
  trace is, for each object in turn, the uniforms \<open>model\<close>, \<open>bUseTexture\<close>,
  \<open>objectColor\<close>, \<open>UVscale\<close>, \<open>bUseTexture\<close>, \<open>objectTexture\<close>, the five material
  uniforms (when the material list is not empty), then the draw.
\<close>

lemma RenderScene_draw_order:
  "map object_mesh scene_objects =
     [Plane, Plane, Cylinder, Cylinder, Cylinder, Cylinder, Cylinder, Sphere,
      Cylinder, Cylinder, Torus, Torus] \<and>
   (\<forall>s. RenderScene s = run_all (concat (map configure_and_draw scene_objects)) s) \<and>
   (\<forall>s s'. RenderScene s = Inr s' \<longrightarrow>
      (\<exists>es. s' = s\<lparr>trace := trace s @ es\<rparr> \<and>
         draws_of es =
           [DrawPlaneMesh, DrawPlaneMesh, DrawCylinderMesh, DrawCylinderMesh, DrawCylinderMesh,
            DrawCylinderMesh, DrawCylinderMesh, DrawSphereMesh, DrawCylinderMesh,
            DrawCylinderMesh, DrawTorusMesh, DrawTorusMesh])) \<and>
   (\<forall>s. m_pShaderManager s \<noteq> NULL \<and> m_loadedTextures s \<le> int (length (m_textureIDs s)) \<longrightarrow>
      RenderScene s =
        Inr (s\<lparr>trace := trace s @
               concat (map (\<lambda>obj. configuration_events s obj @ [draw_event (object_mesh obj)])
                           scene_objects)\<rparr>))"
proof (intro conjI allI impI)
  show "map object_mesh scene_objects =
     [Plane, Plane, Cylinder, Cylinder, Cylinder, Cylinder, Cylinder, Sphere,
      Cylinder, Cylinder, Torus, Torus]"
    by (simp add: scene_objects_def)
next
  fix s
  show "RenderScene s = run_all (concat (map configure_and_draw scene_objects)) s"
    by (rule RenderScene_objects)
next
  fix s s'
  assume "RenderScene s = Inr s'"
  then have "run_all (concat (map configure_and_draw scene_objects)) s = Inr s'"
    by (simp only: RenderScene_objects)
  with adds_objects [of scene_objects]
  obtain es where es: "s' = s\<lparr>trace := trace s @ es\<rparr>"
      "draws_of es = map (\<lambda>obj. draw_event (object_mesh obj)) scene_objects"
    unfolding adds_def by blast
  have "map (\<lambda>obj. draw_event (object_mesh obj)) scene_objects =
      [DrawPlaneMesh, DrawPlaneMesh, DrawCylinderMesh, DrawCylinderMesh, DrawCylinderMesh,
            DrawCylinderMesh, DrawCylinderMesh, DrawSphereMesh, DrawCylinderMesh,
            DrawCylinderMesh, DrawTorusMesh, DrawTorusMesh]"
    by (simp add: scene_objects_def)
  with es show "\<exists>es. s' = s\<lparr>trace := trace s @ es\<rparr> \<and>
         draws_of es =
           [DrawPlaneMesh, DrawPlaneMesh, DrawCylinderMesh, DrawCylinderMesh, DrawCylinderMesh,
            DrawCylinderMesh, DrawCylinderMesh, DrawSphereMesh, DrawCylinderMesh,
            DrawCylinderMesh, DrawTorusMesh, DrawTorusMesh]"
    by metis
next
  fix s :: state
  assume "m_pShaderManager s \<noteq> NULL \<and> m_loadedTextures s \<le> int (length (m_textureIDs s))"
  then have "safe s" by (simp add: safe_def)
  then show "RenderScene s =
        Inr (s\<lparr>trace := trace s @
               concat (map (\<lambda>obj. configuration_events s obj @ [draw_event (object_mesh obj)])
                           scene_objects)\<rparr>)"
    unfolding RenderScene_objects by (rule objects_events)
qed

lemma RenderScene_draw_order_example:
  "m_pShaderManager (DefineObjectMaterials (SceneManager_new ShaderManager [] [])) \<noteq> NULL \<and>
   m_loadedTextures (DefineObjectMaterials (SceneManager_new ShaderManager [] []))
     \<le> int (length (m_textureIDs (DefineObjectMaterials (SceneManager_new ShaderManager [] [])))) \<and>
   (\<exists>s'. RenderScene (DefineObjectMaterials (SceneManager_new ShaderManager [] [])) = Inr s' \<and>
      draws_of (trace s') =
        [DrawPlaneMesh, DrawPlaneMesh, DrawCylinderMesh, DrawCylinderMesh, DrawCylinderMesh,
            DrawCylinderMesh, DrawCylinderMesh, DrawSphereMesh, DrawCylinderMesh,
            DrawCylinderMesh, DrawTorusMesh, DrawTorusMesh] \<and>
      take 12 (trace s') =
        [SetMat4Value ''model''
           (MatMul (MatMul (MatMul (MatMul (GlmTranslate (Vec3 0 0 0))
              (GlmRotate (GlmRadians 0) (Vec3 0 0 1)))
              (GlmRotate (GlmRadians 0) (Vec3 0 1 0)))
              (GlmRotate (GlmRadians 0) (Vec3 1 0 0)))
              (GlmScale (Vec3 20 1 10))),
         SetIntValue ''bUseTexture'' 0,
         SetVec4Value ''objectColor'' (Vec4 1 1 1 1),
         SetVec2Value ''UVscale'' (Vec2 4 4),
         SetIntValue ''bUseTexture'' 1,
         SetSampler2DValue ''objectTexture'' (- 1),
         SetVec3Value ''material.ambientColor'' (Vec3 0.2 0.2 0.3),
         SetFloatValue ''material.ambientStrength'' 0.3,
         SetVec3Value ''material.diffuseColor'' (Vec3 0.4 0.4 0.5),
         SetVec3Value ''material.specularColor'' (Vec3 0.2 0.2 0.4),
         SetFloatValue ''material.shininess'' 0.5,
         DrawPlaneMesh])"
proof -
  let ?s = "DefineObjectMaterials (SceneManager_new ShaderManager [] [])"
  have h: "m_pShaderManager ?s \<noteq> NULL \<and> m_loadedTextures ?s \<le> int (length (m_textureIDs ?s))"
    by (simp add: DefineObjectMaterials_def push_back_def SceneManager_new_def Let_def)
  have t: "trace ?s = []"
    by (simp add: DefineObjectMaterials_def push_back_def SceneManager_new_def Let_def)
  let ?es = "concat (map (\<lambda>obj. configuration_events ?s obj @ [draw_event (object_mesh obj)])
      scene_objects)"
  note returned = RenderScene_draw_order [THEN conjunct2, THEN conjunct2, THEN conjunct1, rule_format]
  note safe_run = RenderScene_draw_order [THEN conjunct2, THEN conjunct2, THEN conjunct2, rule_format]
  have r: "RenderScene ?s = Inr (?s\<lparr>trace := trace ?s @ ?es\<rparr>)"
    using h by (rule safe_run)
  have "\<exists>es. ?s\<lparr>trace := trace ?s @ ?es\<rparr> = ?s\<lparr>trace := trace ?s @ es\<rparr> \<and>
      draws_of es =
        [DrawPlaneMesh, DrawPlaneMesh, DrawCylinderMesh, DrawCylinderMesh, DrawCylinderMesh,
            DrawCylinderMesh, DrawCylinderMesh, DrawSphereMesh, DrawCylinderMesh,
            DrawCylinderMesh, DrawTorusMesh, DrawTorusMesh]"
    using r by (rule returned)
  then obtain es where es:
    "?s\<lparr>trace := trace ?s @ ?es\<rparr> = ?s\<lparr>trace := trace ?s @ es\<rparr>"
    "draws_of es =
        [DrawPlaneMesh, DrawPlaneMesh, DrawCylinderMesh, DrawCylinderMesh, DrawCylinderMesh,
            DrawCylinderMesh, DrawCylinderMesh, DrawSphereMesh, DrawCylinderMesh,
            DrawCylinderMesh, DrawTorusMesh, DrawTorusMesh]"
    by (elim exE conjE)
  from es(1) have "trace (?s\<lparr>trace := trace ?s @ ?es\<rparr>) = trace (?s\<lparr>trace := trace ?s @ es\<rparr>)"
    by (rule arg_cong)
  then have "?es = es" by simp
  with es(2) have d: "draws_of ?es =
        [DrawPlaneMesh, DrawPlaneMesh, DrawCylinderMesh, DrawCylinderMesh, DrawCylinderMesh,
            DrawCylinderMesh, DrawCylinderMesh, DrawSphereMesh, DrawCylinderMesh,
            DrawCylinderMesh, DrawTorusMesh, DrawTorusMesh]"
    by simp
  have slot: "texture_slot ?s ''greyplastic'' = - 1"
    by (simp add: texture_slot_def FindTextureSlot_def FindTextureSlot_while.simps
        DefineObjectMaterials_def push_back_def SceneManager_new_def Let_def)
  have ms: "m_objectMaterials ?s =
     [\<lparr>ambientColor = Vec3 0.5 0.5 0.5, ambientStrength = 0.5,
            diffuseColor = Vec3 0.2 0.2 0.2, specularColor = Vec3 0.5 0.5 0.5,
            shininess = 128, tag = ''blackmetal''\<rparr>,
      \<lparr>ambientColor = Vec3 0.5 0.5 0.5, ambientStrength = 0.4,
            diffuseColor = Vec3 0.4 0.4 0.4, specularColor = Vec3 0.8 0.8 0.8,
            shininess = 0.5, tag = ''carbonfiber''\<rparr>,
      \<lparr>ambientColor = Vec3 0.8 0.8 0.8, ambientStrength = 0.8,
            diffuseColor = Vec3 0.8 0.8 0.8, specularColor = Vec3 1 1 1,
            shininess = 100, tag = ''metal''\<rparr>,
      \<lparr>ambientColor = Vec3 1 1 1, ambientStrength = 0.8,
            diffuseColor = Vec3 1 1 1, specularColor = Vec3 1 1 1,
            shininess = 65, tag = ''greyplastic''\<rparr>,
      \<lparr>ambientColor = Vec3 0.2 0.2 0.3, ambientStrength = 0.3,
            diffuseColor = Vec3 0.4 0.4 0.5, specularColor = Vec3 0.2 0.2 0.4,
            shininess = 0.5, tag = ''clay''\<rparr>]"
    by (simp add: DefineObjectMaterials_def push_back_def SceneManager_new_def Let_def)
  have clay: "snd (FindMaterial ''clay'' ((uninit_material ?s)\<lparr>OBJECT_MATERIAL.tag := []\<rparr>) ?s) =
      \<lparr>ambientColor = Vec3 0.2 0.2 0.3, ambientStrength = 0.3,
            diffuseColor = Vec3 0.4 0.4 0.5, specularColor = Vec3 0.2 0.2 0.4,
            shininess = 0.5, tag = []\<rparr>"
    by (simp add: FindMaterial_def FindMaterial_while_find ms)
  have mat: "material_events ?s ''clay'' =
      [SetVec3Value ''material.ambientColor'' (Vec3 0.2 0.2 0.3),
       SetFloatValue ''material.ambientStrength'' 0.3,
       SetVec3Value ''material.diffuseColor'' (Vec3 0.4 0.4 0.5),
       SetVec3Value ''material.specularColor'' (Vec3 0.2 0.2 0.4),
       SetFloatValue ''material.shininess'' 0.5]"
    unfolding material_events_def Let_def clay by (simp add: ms)
  have first: "take 12 ?es =
        [SetMat4Value ''model''
           (MatMul (MatMul (MatMul (MatMul (GlmTranslate (Vec3 0 0 0))
              (GlmRotate (GlmRadians 0) (Vec3 0 0 1)))
              (GlmRotate (GlmRadians 0) (Vec3 0 1 0)))
              (GlmRotate (GlmRadians 0) (Vec3 1 0 0)))
              (GlmScale (Vec3 20 1 10))),
         SetIntValue ''bUseTexture'' 0,
         SetVec4Value ''objectColor'' (Vec4 1 1 1 1),
         SetVec2Value ''UVscale'' (Vec2 4 4),
         SetIntValue ''bUseTexture'' 1,
         SetSampler2DValue ''objectTexture'' (- 1),
         SetVec3Value ''material.ambientColor'' (Vec3 0.2 0.2 0.3),
         SetFloatValue ''material.ambientStrength'' 0.3,
         SetVec3Value ''material.diffuseColor'' (Vec3 0.4 0.4 0.5),
         SetVec3Value ''material.specularColor'' (Vec3 0.2 0.2 0.4),
         SetFloatValue ''material.shininess'' 0.5,
         DrawPlaneMesh]"
    by (simp add: scene_objects_def slot mat spec_model_matrix_def)
  show ?thesis
    using h r d first by (simp add: t)
qed

text \<open>
  With a null shader manager and an empty material list every setter is a no-op and
  \<open>RenderScene\<close> issues the twelve draws and nothing else.
\<close>

lemma RenderScene_null_no_materials:
  assumes "m_pShaderManager s = NULL" "m_objectMaterials s = []"
  shows "RenderScene s =
     Inr (s\<lparr>trace := trace s @
            [DrawPlaneMesh, DrawPlaneMesh, DrawCylinderMesh, DrawCylinderMesh, DrawCylinderMesh,
             DrawCylinderMesh, DrawCylinderMesh, DrawSphereMesh, DrawCylinderMesh,
             DrawCylinderMesh, DrawTorusMesh, DrawTorusMesh]\<rparr>)"
  using assms
  by (simp add: RenderScene_def SetTransformations_def SetShaderColor_def SetTextureUVScale_def
      SetShaderTexture_def SetShaderMaterial_def mesh_call_def emit_def Let_def)

text \<open>
  C6.  The code at the failing input.  On an object constructed with a null shader manager
  whose material list has been filled by \<open>DefineObjectMaterials\<close>, \<open>RenderScene\<close> issues no
  draw at all: in the first block the four guarded setters do nothing, then
  \<open>SetShaderMaterial("clay")\<close> finds the list non-empty and calls
  \<open>m_pShaderManager->setVec3Value\<close> through the null pointer.  \<open>SetShaderMaterial\<close> lacks the
  test \<open>NULL != m_pShaderManager\<close> that its four sibling setters make.
\<close>

theorem RenderScene_null_dereference:
  "RenderScene (DefineObjectMaterials (SceneManager_new NULL [] [])) = Inl NullDereference"
proof -
  let ?s = "DefineObjectMaterials (SceneManager_new NULL [] [])"
  have n: "m_pShaderManager ?s = NULL"
    by (simp add: DefineObjectMaterials_def push_back_def SceneManager_new_def Let_def)
  have m: "0 < length (m_objectMaterials ?s)"
    by (simp add: DefineObjectMaterials_def push_back_def SceneManager_new_def Let_def)
  have f: "fst (FindMaterial ''clay'' ((uninit_material ?s)\<lparr>OBJECT_MATERIAL.tag := []\<rparr>) ?s) = True"
    using m by (simp add: FindMaterial_def)
  have "SetShaderMaterial ''clay'' ?s = Inl NullDereference"
    using m f n by (simp add: SetShaderMaterial_def shader_call_def split_beta)
  moreover note null_setters = SetTransformations_def SetShaderColor_def SetTextureUVScale_def
    SetShaderTexture_def
  ultimately show ?thesis
    using n by (simp add: RenderScene_def null_setters Let_def)
qed

section \<open>Loading the scene textures; the registry over time\<close>

lemma CreateGLTexture_call_effect:
  assumes "0 \<le> m_loadedTextures s" "m_loadedTextures s < int (length (m_textureIDs s))"
  shows "\<exists>s'. CreateGLTexture_call filename tg s = Inr s' \<and>
           files s' = files s \<and> length (m_textureIDs s') = length (m_textureIDs s) \<and>
           m_loadedTextures s' = m_loadedTextures s + (if loads s filename then 1 else 0) \<and>
           map TEXTURE_INFO.tag (take (nat (m_loadedTextures s')) (m_textureIDs s')) =
             map TEXTURE_INFO.tag (take (nat (m_loadedTextures s)) (m_textureIDs s)) @
             (if loads s filename then [tg] else []) \<and>
           (\<exists>es. trace s' = trace s @ es)"
proof (cases "map_of (files s) filename")
  case None
  then show ?thesis
    by (simp add: CreateGLTexture_call_def drop_result_def CreateGLTexture_no_file loads_def)
next
  case (Some im)
  show ?thesis
  proof (cases "colorChannels im = 3 \<or> colorChannels im = 4")
    case False
    then have l: "\<not> loads s filename" by (simp add: loads_def Some)
    from False have "colorChannels im \<noteq> 3" "colorChannels im \<noteq> 4" by simp_all
    from CreateGLTexture_bad_channels [OF Some this, of tg]
    obtain s' where "CreateGLTexture filename tg s = Inr (False, s')"
        "m_textureIDs s' = m_textureIDs s" "m_loadedTextures s' = m_loadedTextures s"
        "files s' = files s" "\<exists>es. trace s' = trace s @ es"
      by blast
    then show ?thesis using l
      by (simp add: CreateGLTexture_call_def drop_result_def)
  next
    case True
    then have l: "loads s filename" by (simp add: loads_def Some)
    let ?n = "m_loadedTextures s"
    from CreateGLTexture_registers [OF Some True, of tg] obtain s1 x where
      s1: "m_textureIDs s1 = m_textureIDs s" "m_loadedTextures s1 = ?n"
        "files s1 = files s" "\<exists>es. trace s1 = trace s @ es" and
      r: "CreateGLTexture filename tg s =
          (case tex_write ?n \<lparr>ID = x, tag = tg\<rparr> s1 of
             Inl e \<Rightarrow> Inl e
           | Inr s2 \<Rightarrow> Inr (True, s2\<lparr>m_loadedTextures := m_loadedTextures s2 + 1\<rparr>))"
      by blast
    let ?s' = "s1\<lparr>m_textureIDs := (m_textureIDs s)[nat ?n := \<lparr>ID = x, tag = tg\<rparr>],
                  m_loadedTextures := ?n + 1\<rparr>"
    have c: "CreateGLTexture_call filename tg s = Inr ?s'"
      using assms s1 by (simp add: CreateGLTexture_call_def drop_result_def r tex_write_def)
    have nn: "nat (?n + 1) = Suc (nat ?n)" "nat ?n < length (m_textureIDs s)"
      using assms by simp_all
    have "take (Suc (nat ?n)) ((m_textureIDs s)[nat ?n := \<lparr>ID = x, tag = tg\<rparr>]) =
        take (nat ?n) (m_textureIDs s) @ [\<lparr>ID = x, tag = tg\<rparr>]"
      using nn(2) by (simp add: take_Suc_conv_app_nth)
    then have tags: "map TEXTURE_INFO.tag (take (nat (m_loadedTextures ?s')) (m_textureIDs ?s')) =
        map TEXTURE_INFO.tag (take (nat ?n) (m_textureIDs s)) @ [tg]"
      by (simp add: nn(1))
    have "files ?s' = files s \<and> length (m_textureIDs ?s') = length (m_textureIDs s) \<and>
        m_loadedTextures ?s' = ?n + 1 \<and> (\<exists>es. trace ?s' = trace s @ es)"
      using s1 by simp
    with c tags l show ?thesis by (intro exI [of _ ?s']) simp
  qed
qed

lemma loads_cong: "files s' = files s \<Longrightarrow> loads s' = loads s"
  by (rule ext) (simp add: loads_def)

lemma CreateGLTexture_calls_effect:
  assumes "0 \<le> m_loadedTextures s"
    "m_loadedTextures s + int (length fts) \<le> int (length (m_textureIDs s))"
  shows "\<exists>s'. run_all (map (\<lambda>(f, t). CreateGLTexture_call f t) fts) s = Inr s' \<and>
           files s' = files s \<and> length (m_textureIDs s') = length (m_textureIDs s) \<and>
           m_loadedTextures s' =
             m_loadedTextures s + int (length (filter (\<lambda>(f, t). loads s f) fts)) \<and>
           map TEXTURE_INFO.tag (take (nat (m_loadedTextures s')) (m_textureIDs s')) =
             map TEXTURE_INFO.tag (take (nat (m_loadedTextures s)) (m_textureIDs s)) @
             map snd (filter (\<lambda>(f, t). loads s f) fts) \<and>
           (\<exists>es. trace s' = trace s @ es)"
  using assms
proof (induction fts arbitrary: s)
  case Nil
  then show ?case by simp
next
  case (Cons ft fts)
  obtain f t where ft: "ft = (f, t)" by (cases ft)
  from Cons.prems have room: "m_loadedTextures s < int (length (m_textureIDs s))" by simp
  from CreateGLTexture_call_effect [OF Cons.prems(1) room, of f t]
  obtain s1 where s1: "CreateGLTexture_call f t s = Inr s1" "files s1 = files s"
      "length (m_textureIDs s1) = length (m_textureIDs s)"
      "m_loadedTextures s1 = m_loadedTextures s + (if loads s f then 1 else 0)"
      "map TEXTURE_INFO.tag (take (nat (m_loadedTextures s1)) (m_textureIDs s1)) =
         map TEXTURE_INFO.tag (take (nat (m_loadedTextures s)) (m_textureIDs s)) @
         (if loads s f then [t] else [])"
      "\<exists>es. trace s1 = trace s @ es"
    by blast
  have p1: "0 \<le> m_loadedTextures s1"
    and p2: "m_loadedTextures s1 + int (length fts) \<le> int (length (m_textureIDs s1))"
    using Cons.prems s1(3,4) by (simp_all split: if_splits)
  from Cons.IH [OF p1 p2]
  obtain s' where s': "run_all (map (\<lambda>(f, t). CreateGLTexture_call f t) fts) s1 = Inr s'"
      "files s' = files s1" "length (m_textureIDs s') = length (m_textureIDs s1)"
      "m_loadedTextures s' =
         m_loadedTextures s1 + int (length (filter (\<lambda>(f, t). loads s1 f) fts))"
      "map TEXTURE_INFO.tag (take (nat (m_loadedTextures s')) (m_textureIDs s')) =
         map TEXTURE_INFO.tag (take (nat (m_loadedTextures s1)) (m_textureIDs s1)) @
         map snd (filter (\<lambda>(f, t). loads s1 f) fts)"
      "\<exists>es. trace s' = trace s1 @ es"
    by blast
  have l: "loads s1 = loads s" by (rule loads_cong) (rule s1(2))
  have tr: "\<exists>es. trace s' = trace s @ es"
    using s1(6) s'(6) by auto
  have run: "run_all (map (\<lambda>(f, t). CreateGLTexture_call f t) (ft # fts)) s = Inr s'"
    by (simp add: ft s1(1) s'(1))
  have cnt: "m_loadedTextures s' =
      m_loadedTextures s + int (length (filter (\<lambda>(f, t). loads s f) (ft # fts)))"
    by (simp add: ft s1(4) s'(4) l)
  have tags: "map TEXTURE_INFO.tag (take (nat (m_loadedTextures s')) (m_textureIDs s')) =
      map TEXTURE_INFO.tag (take (nat (m_loadedTextures s)) (m_textureIDs s)) @
      map snd (filter (\<lambda>(f, t). loads s f) (ft # fts))"
    using s'(5) s1(5) by (simp add: ft l)
  show ?case
    using run cnt tags tr s1(2,3) s'(2,3) by (intro exI [of _ s']) simp
qed

lemma BindGLTextures_loop_events:
  assumes "0 \<le> i" "m_loadedTextures s \<le> int (length (m_textureIDs s))"
  shows "BindGLTextures_loop i s =
     Inr (s\<lparr>trace := trace s @
            concat (map (\<lambda>j. [GlActiveTexture (int j),
                                GlBindTexture ''GL_TEXTURE_2D'' (ID (m_textureIDs s ! j))])
                        [nat i ..< nat (m_loadedTextures s)])\<rparr>)"
  using assms
proof (induction i s rule: BindGLTextures_loop.induct)
  case (1 i s)
  show ?case
  proof (cases "i < m_loadedTextures s")
    case False
    then show ?thesis by (simp add: BindGLTextures_loop.simps [of i s])
  next
    case True
    let ?t = "m_textureIDs s ! nat i"
    let ?s2 = "emit (GlBindTexture ''GL_TEXTURE_2D'' (ID ?t)) (emit (GlActiveTexture i) s)"
    have rd: "tex_read s i = Inr ?t"
      using True 1(2,3) by (simp add: tex_read_def)
    have ih: "BindGLTextures_loop (i + 1) ?s2 =
       Inr (?s2\<lparr>trace := trace ?s2 @
            concat (map (\<lambda>j. [GlActiveTexture (int j),
                                GlBindTexture ''GL_TEXTURE_2D'' (ID (m_textureIDs ?s2 ! j))])
                        [nat (i + 1) ..< nat (m_loadedTextures ?s2)])\<rparr>)"
      using 1(1) [OF True rd] 1(2,3) by simp
    have u: "[nat i ..< nat (m_loadedTextures s)] = nat i # [nat (i + 1) ..< nat (m_loadedTextures s)]"
      using True 1(2) by (simp add: upt_conv_Cons nat_add_distrib)
    have "BindGLTextures_loop i s = BindGLTextures_loop (i + 1) ?s2"
      using True rd by (simp add: BindGLTextures_loop.simps [of i s])
    also note ih
    also have "?s2\<lparr>trace := trace ?s2 @
            concat (map (\<lambda>j. [GlActiveTexture (int j),
                                GlBindTexture ''GL_TEXTURE_2D'' (ID (m_textureIDs ?s2 ! j))])
                        [nat (i + 1) ..< nat (m_loadedTextures ?s2)])\<rparr> =
        s\<lparr>trace := trace s @
            concat (map (\<lambda>j. [GlActiveTexture (int j),
                                GlBindTexture ''GL_TEXTURE_2D'' (ID (m_textureIDs s ! j))])
                        [nat i ..< nat (m_loadedTextures s)])\<rparr>"
      using 1(2) by (simp add: u emit_def)
    finally show ?thesis .
  qed
qed

lemma adds_BindGLTextures_loop:
  "BindGLTextures_loop i s = Inr s' \<Longrightarrow> \<exists>es. s' = s\<lparr>trace := trace s @ es\<rparr> \<and> draws_of es = []"
proof (induction i s rule: BindGLTextures_loop.induct)
  case (1 i s)
  show ?case
  proof (cases "i < m_loadedTextures s")
    case False
    then have "s' = s\<lparr>trace := trace s @ []\<rparr>"
      using 1(2) by (simp add: BindGLTextures_loop.simps [of i s])
    then show ?thesis by (intro exI [of _ "[]"]) simp
  next
    case True
    obtain t where t: "tex_read s i = Inr t"
      using 1(2) True by (simp add: BindGLTextures_loop.simps [of i s] split: sum.splits)
    let ?s2 = "emit (GlBindTexture ''GL_TEXTURE_2D'' (ID t)) (emit (GlActiveTexture i) s)"
    have rest: "BindGLTextures_loop (i + 1) ?s2 = Inr s'"
      using 1(2) True t by (simp add: BindGLTextures_loop.simps [of i s])
    from 1(1) [OF True t rest] obtain es where
      es: "s' = ?s2\<lparr>trace := trace ?s2 @ es\<rparr>" "draws_of es = []"
      by blast
    have "s' = s\<lparr>trace := trace s @ ([GlActiveTexture i, GlBindTexture ''GL_TEXTURE_2D'' (ID t)] @ es)\<rparr>"
      by (simp add: es(1) emit_def)
    moreover have "draws_of ([GlActiveTexture i, GlBindTexture ''GL_TEXTURE_2D'' (ID t)] @ es) = []"
      using es(2) by simp
    ultimately show ?thesis by blast
  qed
qed

lemma adds_BindGLTextures: "adds BindGLTextures []"
  unfolding adds_def BindGLTextures_def using adds_BindGLTextures_loop by blast

lemma LoadSceneTextures_calls:
  "LoadSceneTextures s =
     run_all (map (\<lambda>(f, t). CreateGLTexture_call f t)
                [(''textures/blackmetal.jpg'', ''blackmetal''),
               (''textures/carbonfiber.png'', ''carbonfiber''),
               (''textures/metal.jpg'', ''metal''),
               (''textures/greyplastic.jpg'', ''greyplastic'')] @ [BindGLTextures]) s"
  by (simp add: LoadSceneTextures_def del: run_all.simps)

lemma LoadSceneTextures_effect:
  assumes "0 \<le> m_loadedTextures s" "m_loadedTextures s + 4 \<le> int (length (m_textureIDs s))"
  shows "\<exists>s'. LoadSceneTextures s = Inr s' \<and>
        map TEXTURE_INFO.tag (take (nat (m_loadedTextures s')) (m_textureIDs s')) =
          map TEXTURE_INFO.tag (take (nat (m_loadedTextures s)) (m_textureIDs s)) @
          map snd (filter (\<lambda>(f, t). loads s f)
              [(''textures/blackmetal.jpg'', ''blackmetal''),
               (''textures/carbonfiber.png'', ''carbonfiber''),
               (''textures/metal.jpg'', ''metal''),
               (''textures/greyplastic.jpg'', ''greyplastic'')]) \<and>
        m_loadedTextures s' =
          m_loadedTextures s + int (length (filter (\<lambda>(f, t). loads s f)
              [(''textures/blackmetal.jpg'', ''blackmetal''),
               (''textures/carbonfiber.png'', ''carbonfiber''),
               (''textures/metal.jpg'', ''metal''),
               (''textures/greyplastic.jpg'', ''greyplastic'')])) \<and>
        (\<exists>es. trace s' = trace s @ es @ bind_events s')"
proof -
  let ?four = "[(''textures/blackmetal.jpg'', ''blackmetal''),
               (''textures/carbonfiber.png'', ''carbonfiber''),
               (''textures/metal.jpg'', ''metal''),
               (''textures/greyplastic.jpg'', ''greyplastic'')]"
  have room: "m_loadedTextures s + int (length ?four) \<le> int (length (m_textureIDs s))"
    using assms(2) by simp
  from CreateGLTexture_calls_effect [OF assms(1) room]
  obtain s1 where s1: "run_all (map (\<lambda>(f, t). CreateGLTexture_call f t) ?four) s = Inr s1"
      "length (m_textureIDs s1) = length (m_textureIDs s)"
      "m_loadedTextures s1 =
         m_loadedTextures s + int (length (filter (\<lambda>(f, t). loads s f) ?four))"
      "map TEXTURE_INFO.tag (take (nat (m_loadedTextures s1)) (m_textureIDs s1)) =
         map TEXTURE_INFO.tag (take (nat (m_loadedTextures s)) (m_textureIDs s)) @
         map snd (filter (\<lambda>(f, t). loads s f) ?four)"
      "\<exists>es. trace s1 = trace s @ es"
    by blast
  have "length (filter (\<lambda>(f, t). loads s f) ?four) \<le> length ?four"
    by (rule length_filter_le)
  then have le: "m_loadedTextures s1 \<le> int (length (m_textureIDs s1))"
    using assms(2) s1(2,3) by simp
  let ?s' = "s1\<lparr>trace := trace s1 @ bind_events s1\<rparr>"
  have b: "BindGLTextures s1 = Inr ?s'"
    using BindGLTextures_loop_events [of 0 s1] le by (simp add: BindGLTextures_def bind_events_def)
  have "LoadSceneTextures s = Inr ?s'"
    by (simp only: LoadSceneTextures_calls run_all_append s1(1)) (simp add: b)
  moreover have "bind_events ?s' = bind_events s1" by (simp add: bind_events_def)
  moreover from s1(5) obtain es where "trace s1 = trace s @ es" by blast
  ultimately show ?thesis using s1(3,4) by (intro exI [of _ ?s']) simp
qed

lemma registry_kept_refl: "registry_kept s s"
  by (simp add: registry_kept_def)

lemma registry_kept_trace [simp]: "registry_kept s (s\<lparr>trace := t\<rparr>)"
  by (simp add: registry_kept_def)

lemma registry_kept_trans:
  assumes "registry_kept s s1" "registry_kept s1 s2"
  shows "registry_kept s s2"
proof -
  let ?n = "nat (m_loadedTextures s)" and ?n1 = "nat (m_loadedTextures s1)"
  have le: "?n \<le> ?n1" using assms(1) by (simp add: registry_kept_def nat_mono)
  have "map TEXTURE_INFO.tag (take ?n (m_textureIDs s2)) =
      take ?n (map TEXTURE_INFO.tag (take ?n1 (m_textureIDs s2)))"
    using le by (simp add: take_map min_def)
  also have "\<dots> = take ?n (map TEXTURE_INFO.tag (take ?n1 (m_textureIDs s1)))"
    using assms(2) by (simp add: registry_kept_def)
  also have "\<dots> = map TEXTURE_INFO.tag (take ?n (m_textureIDs s1))"
    using le by (simp add: take_map min_def)
  also have "\<dots> = map TEXTURE_INFO.tag (take ?n (m_textureIDs s))"
    using assms(1) by (simp add: registry_kept_def)
  finally show ?thesis
    using assms by (simp add: registry_kept_def)
qed

lemma keeps_adds: "adds f ds \<Longrightarrow> keeps f"
  unfolding keeps_def adds_def by (metis registry_kept_trace)

lemma keeps_run_all: "(\<forall>f \<in> set fs. keeps f) \<Longrightarrow> keeps (run_all fs)"
proof (induction fs)
  case Nil
  show ?case by (simp add: keeps_def registry_kept_refl)
next
  case (Cons f fs)
  then have f: "keeps f" and fs: "keeps (run_all fs)" by simp_all
  show ?case
    unfolding keeps_def
  proof (intro allI impI)
    fix s s'
    assume "run_all (f # fs) s = Inr s'"
    then obtain s1 where "f s = Inr s1" "run_all fs s1 = Inr s'"
      by (auto split: sum.splits)
    with f fs have "registry_kept s s1" "registry_kept s1 s'"
      by (auto simp: keeps_def)
    then show "registry_kept s s'" by (rule registry_kept_trans)
  qed
qed

lemma keeps_CreateGLTexture_call: "keeps (CreateGLTexture_call filename tg)"
  unfolding keeps_def
proof (intro allI impI)
  fix s s'
  assume a: "CreateGLTexture_call filename tg s = Inr s'"
  show "registry_kept s s'"
  proof (cases "map_of (files s) filename")
    case None
    then show ?thesis
      using a by (auto simp: CreateGLTexture_call_def drop_result_def CreateGLTexture_no_file)
  next
    case (Some im)
    show ?thesis
    proof (cases "colorChannels im = 3 \<or> colorChannels im = 4")
      case False
      then have "colorChannels im \<noteq> 3" "colorChannels im \<noteq> 4" by simp_all
      from CreateGLTexture_bad_channels [OF Some this, of tg] a
      show ?thesis
        by (auto simp: CreateGLTexture_call_def drop_result_def registry_kept_def)
    next
      case True
      from CreateGLTexture_registers [OF Some True, of tg] obtain s1 x where
        s1: "m_textureIDs s1 = m_textureIDs s" "m_loadedTextures s1 = m_loadedTextures s" and
        r: "CreateGLTexture filename tg s =
          (case tex_write (m_loadedTextures s) \<lparr>ID = x, tag = tg\<rparr> s1 of
             Inl e \<Rightarrow> Inl e
           | Inr s2 \<Rightarrow> Inr (True, s2\<lparr>m_loadedTextures := m_loadedTextures s2 + 1\<rparr>))"
        by blast
      from a obtain s2 where w: "tex_write (m_loadedTextures s) \<lparr>ID = x, tag = tg\<rparr> s1 = Inr s2"
        and s': "s' = s2\<lparr>m_loadedTextures := m_loadedTextures s2 + 1\<rparr>"
        by (auto simp: CreateGLTexture_call_def drop_result_def r split: sum.splits)
      from tex_write_Inr [OF w] show ?thesis
        by (simp add: s' s1 registry_kept_def)
    qed
  qed
qed

lemma keeps_DestroyGLTextures: "keeps DestroyGLTextures"
  unfolding keeps_def
proof (intro allI impI)
  fix s s'
  assume "DestroyGLTextures s = Inr s'"
  then have e: "m_loadedTextures s' = m_loadedTextures s"
      "map TEXTURE_INFO.tag (m_textureIDs s') = map TEXTURE_INFO.tag (m_textureIDs s)"
    using DestroyGLTextures_loop_effect [of 0 s s'] by (simp_all add: DestroyGLTextures_def)
  from e(2) have "length (m_textureIDs s') = length (m_textureIDs s)"
    by (metis length_map)
  moreover from e(2) have "map TEXTURE_INFO.tag (take k (m_textureIDs s')) =
      map TEXTURE_INFO.tag (take k (m_textureIDs s))" for k
    by (simp add: take_map [symmetric])
  ultimately show "registry_kept s s'" using e(1) by (simp add: registry_kept_def)
qed

lemma keeps_mesh_call: "keeps (mesh_call e)"
  by (simp add: keeps_def mesh_call_def emit_def)

lemma keeps_DefineObjectMaterials_call: "keeps DefineObjectMaterials_call"
  by (auto simp: keeps_def DefineObjectMaterials_call_def DefineObjectMaterials_def push_back_def
      Let_def registry_kept_def)

lemma adds_SetupSceneLights: "adds SetupSceneLights []"
proof -
  have "adds (\<lambda>s. SetupSceneLights s) []"
    unfolding SetupSceneLights_def
    by (rule adds_quiet_list) (simp add: adds_shader_call)
  then show ?thesis by simp
qed

lemma adds_RenderScene: "\<exists>ds. adds RenderScene ds"
proof -
  have "adds (\<lambda>s. RenderScene s) (map (\<lambda>obj. draw_event (object_mesh obj)) scene_objects)"
    unfolding RenderScene_objects by (rule adds_objects)
  then show ?thesis by auto
qed

lemma keeps_LoadSceneTextures: "keeps LoadSceneTextures"
proof -
  have "keeps (\<lambda>s. LoadSceneTextures s)"
    unfolding LoadSceneTextures_def
    by (rule keeps_run_all)
      (simp add: keeps_CreateGLTexture_call keeps_adds [OF adds_BindGLTextures])
  then show ?thesis by simp
qed

lemma keeps_PrepareScene: "keeps PrepareScene"
proof -
  have "keeps (\<lambda>s. PrepareScene s)"
    unfolding PrepareScene_def
    by (rule keeps_run_all)
      (simp add: keeps_DefineObjectMaterials_call keeps_adds [OF adds_SetupSceneLights]
        keeps_LoadSceneTextures keeps_mesh_call)
  then show ?thesis by simp
qed

lemma keeps_perform: "keeps (perform op)"
proof -
  have "perform op s = Inr s' \<Longrightarrow> registry_kept s s'" for s s'
  proof (cases op)
    case (OpCreateGLTexture filename tg)
    assume "perform op s = Inr s'"
    then show ?thesis
      using keeps_CreateGLTexture_call [of filename tg] by (simp add: OpCreateGLTexture keeps_def)
  next
    case OpBindGLTextures
    assume "perform op s = Inr s'"
    then show ?thesis
      using keeps_adds [OF adds_BindGLTextures] by (simp add: OpBindGLTextures keeps_def)
  next
    case OpDestroyGLTextures
    assume "perform op s = Inr s'"
    then show ?thesis
      using keeps_DestroyGLTextures by (simp add: OpDestroyGLTextures keeps_def)
  next
    case (OpFindTextureID tg)
    assume "perform op s = Inr s'"
    then have "s' = s" by (simp add: OpFindTextureID split: sum.splits)
    then show ?thesis by (simp add: registry_kept_refl)
  next
    case (OpFindTextureSlot tg)
    assume "perform op s = Inr s'"
    then have "s' = s" by (simp add: OpFindTextureSlot split: sum.splits)
    then show ?thesis by (simp add: registry_kept_refl)
  next
    case (OpFindMaterial tg material)
    assume "perform op s = Inr s'"
    then have "s' = s" by (simp add: OpFindMaterial split: prod.splits)
    then show ?thesis by (simp add: registry_kept_refl)
  next
    case (OpSetTransformations scaleXYZ xDeg yDeg zDeg positionXYZ)
    assume "perform op s = Inr s'"
    then show ?thesis
      using keeps_adds [OF adds_SetTransformations [of scaleXYZ xDeg yDeg zDeg positionXYZ]]
      by (simp add: OpSetTransformations keeps_def)
  next
    case (OpSetShaderColor r g b a)
    assume "perform op s = Inr s'"
    then show ?thesis
      using keeps_adds [OF adds_SetShaderColor [of r g b a]]
      by (simp add: OpSetShaderColor keeps_def)
  next
    case (OpSetShaderTexture tg)
    assume "perform op s = Inr s'"
    then show ?thesis
      using keeps_adds [OF adds_SetShaderTexture [of tg]]
      by (simp add: OpSetShaderTexture keeps_def)
  next
    case (OpSetTextureUVScale u v)
    assume "perform op s = Inr s'"
    then show ?thesis
      using keeps_adds [OF adds_SetTextureUVScale [of u v]]
      by (simp add: OpSetTextureUVScale keeps_def)
  next
    case (OpSetShaderMaterial tg)
    assume "perform op s = Inr s'"
    then show ?thesis
      using keeps_adds [OF adds_SetShaderMaterial [of tg]]
      by (simp add: OpSetShaderMaterial keeps_def)
  next
    case OpDefineObjectMaterials
    assume "perform op s = Inr s'"
    then show ?thesis
      using keeps_DefineObjectMaterials_call by (simp add: OpDefineObjectMaterials keeps_def)
  next
    case OpSetupSceneLights
    assume "perform op s = Inr s'"
    then show ?thesis
      using keeps_adds [OF adds_SetupSceneLights] by (simp add: OpSetupSceneLights keeps_def)
  next
    case OpLoadSceneTextures
    assume "perform op s = Inr s'"
    then show ?thesis
      using keeps_LoadSceneTextures by (simp add: OpLoadSceneTextures keeps_def)
  next
    case OpPrepareScene
    assume "perform op s = Inr s'"
    then show ?thesis
      using keeps_PrepareScene by (simp add: OpPrepareScene keeps_def)
  next
    case OpRenderScene
    assume "perform op s = Inr s'"
    moreover obtain ds where "adds RenderScene ds" using adds_RenderScene by blast
    ultimately show ?thesis
      using keeps_adds [of RenderScene ds] by (simp add: OpRenderScene keeps_def)
  qed
  then show ?thesis unfolding keeps_def by blast
qed

text \<open>
  C7 (amended).  \<open>LoadSceneTextures\<close>, on a registry with room for four more entries,
  tries the four files in the order blackmetal, carbonfiber, metal, greyplastic, registers
  the tag of each file that loads with 3 or 4 channels (all four tags when every file
  loads, fewer otherwise) and ends by binding every loaded texture.  No sequence of
  SceneManager operations that returns decreases \<open>m_loadedTextures\<close> or changes the tag at
  an index that was registered.
\<close>

theorem textures_loaded_and_kept:
  "(0 \<le> m_loadedTextures s \<and> m_loadedTextures s + 4 \<le> int (length (m_textureIDs s)) \<longrightarrow>
      (\<exists>s'. LoadSceneTextures s = Inr s' \<and>
         map TEXTURE_INFO.tag (take (nat (m_loadedTextures s')) (m_textureIDs s')) =
           map TEXTURE_INFO.tag (take (nat (m_loadedTextures s)) (m_textureIDs s)) @
           map snd (filter (\<lambda>(f, t). loads s f)
              [(''textures/blackmetal.jpg'', ''blackmetal''),
               (''textures/carbonfiber.png'', ''carbonfiber''),
               (''textures/metal.jpg'', ''metal''),
               (''textures/greyplastic.jpg'', ''greyplastic'')]) \<and>
         m_loadedTextures s' =
           m_loadedTextures s + int (length (filter (\<lambda>(f, t). loads s f)
              [(''textures/blackmetal.jpg'', ''blackmetal''),
               (''textures/carbonfiber.png'', ''carbonfiber''),
               (''textures/metal.jpg'', ''metal''),
               (''textures/greyplastic.jpg'', ''greyplastic'')])) \<and>
         (\<exists>es. trace s' = trace s @ es @ bind_events s'))) \<and>
   (\<forall>ops s'. run_all (map perform ops) s = Inr s' \<longrightarrow>
      m_loadedTextures s \<le> m_loadedTextures s' \<and>
      map TEXTURE_INFO.tag (take (nat (m_loadedTextures s)) (m_textureIDs s')) =
        map TEXTURE_INFO.tag (take (nat (m_loadedTextures s)) (m_textureIDs s)))"
proof (intro conjI allI impI)
  assume "0 \<le> m_loadedTextures s \<and> m_loadedTextures s + 4 \<le> int (length (m_textureIDs s))"
  then have "0 \<le> m_loadedTextures s" "m_loadedTextures s + 4 \<le> int (length (m_textureIDs s))"
    by simp_all
  then show "\<exists>s'. LoadSceneTextures s = Inr s' \<and>
         map TEXTURE_INFO.tag (take (nat (m_loadedTextures s')) (m_textureIDs s')) =
           map TEXTURE_INFO.tag (take (nat (m_loadedTextures s)) (m_textureIDs s)) @
           map snd (filter (\<lambda>(f, t). loads s f)
              [(''textures/blackmetal.jpg'', ''blackmetal''),
               (''textures/carbonfiber.png'', ''carbonfiber''),
               (''textures/metal.jpg'', ''metal''),
               (''textures/greyplastic.jpg'', ''greyplastic'')]) \<and>
         m_loadedTextures s' =
           m_loadedTextures s + int (length (filter (\<lambda>(f, t). loads s f)
              [(''textures/blackmetal.jpg'', ''blackmetal''),
               (''textures/carbonfiber.png'', ''carbonfiber''),
               (''textures/metal.jpg'', ''metal''),
               (''textures/greyplastic.jpg'', ''greyplastic'')])) \<and>
         (\<exists>es. trace s' = trace s @ es @ bind_events s')"
    by (rule LoadSceneTextures_effect)
next
  fix ops s'
  assume "run_all (map perform ops) s = Inr s'"
  moreover have "keeps (run_all (map perform ops))"
    by (rule keeps_run_all) (simp add: keeps_perform)
  ultimately have k: "registry_kept s s'" by (simp add: keeps_def)
  from k show "m_loadedTextures s \<le> m_loadedTextures s'"
    by (simp add: registry_kept_def)
  from k show "map TEXTURE_INFO.tag (take (nat (m_loadedTextures s)) (m_textureIDs s')) =
      map TEXTURE_INFO.tag (take (nat (m_loadedTextures s)) (m_textureIDs s))"
    by (simp add: registry_kept_def)
qed

theorem textures_loaded_and_kept_witness:
  "\<exists>s1 s2.
     LoadSceneTextures (SceneManager_new ShaderManager scene_files [1, 2, 3, 4]) = Inr s1 \<and>
     m_loadedTextures s1 = 4 \<and>
     map TEXTURE_INFO.tag (take 4 (m_textureIDs s1)) =
       [''blackmetal'', ''carbonfiber'', ''metal'', ''greyplastic''] \<and>
     run_all (map perform [OpDefineObjectMaterials, OpFindMaterial ''clay'' (uninit_material s1)]) s1
       = Inr s2 \<and>
     4 \<le> m_loadedTextures s2 \<and>
     map TEXTURE_INFO.tag (take 4 (m_textureIDs s2)) =
       [''blackmetal'', ''carbonfiber'', ''metal'', ''greyplastic'']"
proof -
  let ?new = "SceneManager_new ShaderManager scene_files [1, 2, 3, 4]"
  have room: "0 \<le> m_loadedTextures ?new \<and>
      m_loadedTextures ?new + 4 \<le> int (length (m_textureIDs ?new))"
    by (simp add: SceneManager_new_def)
  have n0: "m_loadedTextures ?new = 0" by (simp add: SceneManager_new_def)
  have l: "loads ?new ''textures/blackmetal.jpg''" "loads ?new ''textures/carbonfiber.png''"
      "loads ?new ''textures/metal.jpg''" "loads ?new ''textures/greyplastic.jpg''"
    by (simp_all add: loads_def SceneManager_new_def scene_files_def)
  from textures_loaded_and_kept [of ?new] room
  obtain s1 where s1: "LoadSceneTextures ?new = Inr s1"
      "map TEXTURE_INFO.tag (take (nat (m_loadedTextures s1)) (m_textureIDs s1)) =
           map TEXTURE_INFO.tag (take (nat (m_loadedTextures ?new)) (m_textureIDs ?new)) @
           map snd (filter (\<lambda>(f, t). loads ?new f)
              [(''textures/blackmetal.jpg'', ''blackmetal''),
               (''textures/carbonfiber.png'', ''carbonfiber''),
               (''textures/metal.jpg'', ''metal''),
               (''textures/greyplastic.jpg'', ''greyplastic'')])"
      "m_loadedTextures s1 =
           m_loadedTextures ?new + int (length (filter (\<lambda>(f, t). loads ?new f)
              [(''textures/blackmetal.jpg'', ''blackmetal''),
               (''textures/carbonfiber.png'', ''carbonfiber''),
               (''textures/metal.jpg'', ''metal''),
               (''textures/greyplastic.jpg'', ''greyplastic'')]))"
    by blast
  have n1: "m_loadedTextures s1 = 4"
    using s1(3) by (simp add: l n0)
  have t1: "map TEXTURE_INFO.tag (take 4 (m_textureIDs s1)) =
       [''blackmetal'', ''carbonfiber'', ''metal'', ''greyplastic'']"
    using s1(2) by (simp add: l n0 n1)
  let ?ops = "[OpDefineObjectMaterials, OpFindMaterial ''clay'' (uninit_material s1)]"
  have run: "run_all (map perform ?ops) s1 = Inr (DefineObjectMaterials s1)"
    by (simp add: DefineObjectMaterials_call_def split: prod.splits)
  from textures_loaded_and_kept [of s1] run
  have "m_loadedTextures s1 \<le> m_loadedTextures (DefineObjectMaterials s1) \<and>
      map TEXTURE_INFO.tag (take (nat (m_loadedTextures s1)) (m_textureIDs (DefineObjectMaterials s1))) =
        map TEXTURE_INFO.tag (take (nat (m_loadedTextures s1)) (m_textureIDs s1))"
    by blast
  then have "4 \<le> m_loadedTextures (DefineObjectMaterials s1) \<and>
      map TEXTURE_INFO.tag (take 4 (m_textureIDs (DefineObjectMaterials s1))) =
       [''blackmetal'', ''carbonfiber'', ''metal'', ''greyplastic'']"
    by (simp add: n1 t1)
  with s1(1) n1 t1 run show ?thesis
    by (intro exI [of _ s1] exI [of _ "DefineObjectMaterials s1"]) simp
qed

text \<open>With no image file on disk, \<open>LoadSceneTextures\<close> registers no texture.\<close>

theorem LoadSceneTextures_missing_files_counterexample:
  "map_sum id m_loadedTextures (LoadSceneTextures (SceneManager_new ShaderManager [] [])) = Inr 0"
proof -
  let ?new = "SceneManager_new ShaderManager [] []"
  have room: "0 \<le> m_loadedTextures ?new" "m_loadedTextures ?new + 4 \<le> int (length (m_textureIDs ?new))"
    by (simp_all add: SceneManager_new_def)
  have l: "loads ?new f = False" for f
    by (simp add: loads_def SceneManager_new_def)
  from LoadSceneTextures_effect [OF room]
  obtain s' where "LoadSceneTextures ?new = Inr s'"
      "m_loadedTextures s' =
           m_loadedTextures ?new + int (length (filter (\<lambda>(f, t). loads ?new f)
              [(''textures/blackmetal.jpg'', ''blackmetal''),
               (''textures/carbonfiber.png'', ''carbonfiber''),
               (''textures/metal.jpg'', ''metal''),
               (''textures/greyplastic.jpg'', ''greyplastic'')]))"
    by blast
  moreover have "m_loadedTextures ?new = 0" by (simp add: SceneManager_new_def)
  ultimately show ?thesis by (simp add: l)
qed

end
